theory Spec2Isabelle
  imports Main "HOL-Library.Sublist" "HOL-Library.Multiset"
begin

section \<open>Survey client: ranking the rated problem categories\<close>

text \<open>
  \<^verbatim>\<open>SurveyManager.getTopProblems\<close> (script.js) reads \<^verbatim>\<open>this.currentRatings\<close>, an object
  from category name to the number stored by \<^verbatim>\<open>parseInt(value)\<close>. The object is
  modelled by the list \<^verbatim>\<open>Object.entries\<close> returns: the pairs in insertion order, one
  pair per key. (JavaScript enumerates keys that are canonical array indices first; the
  category names of the survey are not of that form.) A rating is an \<open>int\<close>; the
  value \<^verbatim>\<open>NaN\<close> fails the test \<^verbatim>\<open>rating > 0\<close> like a non-positive number does.
\<close>

record problem =
  category :: string
  rating :: int

text \<open>
  \<^verbatim>\<open>
  getTopProblems() {
      const problems = Object.entries(this.currentRatings)
          .map(([category, rating]) => ({ category, rating }))
          .filter(problem => problem.rating > 0)
          .sort((a, b) => b.rating - a.rating)
          .slice(0, 3);
      return problems;
  }
  \<close>
  \<^verbatim>\<open>Array.prototype.sort\<close> is stable, and the comparator puts the larger rating first:
  this is an insertion sort on the negated rating.
\<close>

definition getTopProblems :: "(string \<times> int) list \<Rightarrow> problem list" where
  "getTopProblems currentRatings =
     take 3
       (sort_key (\<lambda>p. - rating p)
          (filter (\<lambda>p. rating p > 0)
             (map (\<lambda>(c, r). \<lparr>category = c, rating = r\<rparr>) currentRatings)))"

definition entries_of :: "(string \<times> int) list \<Rightarrow> problem list" where
  "entries_of currentRatings = map (\<lambda>(c, r). \<lparr>category = c, rating = r\<rparr>) currentRatings"

subsection \<open>Notions used in the statements about the ranking\<close>

text \<open>The entries with a rating above zero, in the order of the object.\<close>

definition ratedEntries :: "(string \<times> int) list \<Rightarrow> problem list" where
  "ratedEntries currentRatings = filter (\<lambda>p. rating p > 0) (entries_of currentRatings)"

text \<open>
  What it is for a list \<open>ys\<close> to be the three top-ranked of the entries \<open>xs\<close>: it has
  three entries, or all of \<open>xs\<close> if these are fewer; it is in descending order of rating;
  its entries of any one rating are an initial segment of those of \<open>xs\<close>, so ties
  stand in the order of \<open>xs\<close> and the earlier ones are taken first; and when it leaves
  out an entry of some rating, it holds no entry of a lower rating.
\<close>

definition rankedTop3 :: "problem list \<Rightarrow> problem list \<Rightarrow> bool" where
  "rankedTop3 xs ys =
     (length ys = min 3 (length xs)
      \<and> sorted_wrt (\<lambda>a b. rating b \<le> rating a) ys
      \<and> (\<forall>r. prefix (filter (\<lambda>p. rating p = r) ys) (filter (\<lambda>p. rating p = r) xs))
      \<and> (\<forall>r. length (filter (\<lambda>p. rating p = r) ys) < length (filter (\<lambda>p. rating p = r) xs)
             \<longrightarrow> (\<forall>p \<in> set ys. r \<le> rating p)))"

section \<open>Aggregation of a response set\<close>

text \<open>
  \<^verbatim>\<open>processSurveyData(responses)\<close> (script.js) summarises the locally stored responses
  for the dashboard. Of a response it reads six fields; a field that is absent
  (\<^verbatim>\<open>undefined\<close>) is \<open>None\<close>. The ratings of a response are the entries of its
  \<^verbatim>\<open>problemRatings\<close> object, its \<^verbatim>\<open>topProblems\<close> the array built by
  \<^verbatim>\<open>getTopProblems\<close>; the two selected ratings, the price and the interest answer are
  strings (\<^verbatim>\<open>dataset.value\<close> and \<^verbatim>\<open>value.trim()\<close>). A rating is an integer, as
  \<^verbatim>\<open>handleRatingSelect\<close> stores it, and \<^verbatim>\<open>parseInt(rating)\<close> is the rating itself.
\<close>

record surveyResponse =
  problemRatings :: "(string \<times> int) list option"
  topProblems :: "problem list option"
  satisfactionRating :: "string option"
  likelihoodRating :: "string option"
  willingnessToPay :: "string option"
  interestedInTrying :: "string option"

text \<open>
  The fields of \<^verbatim>\<open>processedData\<close> change their type while the function runs (a number
  first, a string at the end; a \<^verbatim>\<open>{sum, count}\<close> object first, a string at the end),
  so their values are a datatype. The two floating-point computations are kept as
  terms and not evaluated: \<open>Fixed1 a b\<close> is the string \<^verbatim>\<open>(a / b).toFixed(1)\<close> and
  \<open>Percent a b\<close> the string \<^verbatim>\<open>Math.round((a / b) * 100) + '%'\<close>.
\<close>

datatype jsval =
    Num int
  | Str string
  | SumCount int nat
  | Fixed1 int nat
  | Percent nat nat

record earlyAdopterCounts =
  yes :: nat
  no :: nat

text \<open>
  The fields \<^verbatim>\<open>topProblems\<close> and \<^verbatim>\<open>willingnessToPay\<close> of \<^verbatim>\<open>processedData\<close> carry a
  prime here, the names being taken by the fields of a response. An object used as a
  counter table is the list of its entries in insertion order, which is the order
  \<^verbatim>\<open>Object.entries\<close> follows for keys that are not canonical array indices.
\<close>

record processedData =
  totalResponses :: nat
  completionRate :: nat
  problemDistribution :: "(string \<times> nat) list"
  topProblems' :: "(string \<times> nat) list"
  severityByCategory :: "(string \<times> jsval) list"
  satisfaction :: "(int \<times> nat) list"
  adoptionLikelihood :: "(int \<times> nat) list"
  willingnessToPay' :: "(string \<times> nat) list"
  earlyAdopter :: earlyAdopterCounts
  avgProblemSeverity :: jsval
  topProblem :: string
  solutionInterest :: jsval

text \<open>\<^verbatim>\<open>obj[k] = (obj[k] || 0) + 1\<close>: a new key is appended, a known key keeps its place.\<close>

fun increment :: "string \<Rightarrow> (string \<times> nat) list \<Rightarrow> (string \<times> nat) list" where
  "increment k [] = [(k, 1)]"
| "increment k ((k', v) # kvs) =
     (if k = k' then (k', v + 1) # kvs else (k', v) # increment k kvs)"

text \<open>
  \<^verbatim>\<open>
  if (!processedData.severityByCategory[category]) {
      processedData.severityByCategory[category] = { sum: 0, count: 0 };
  }
  processedData.severityByCategory[category].sum += parseInt(rating);
  processedData.severityByCategory[category].count++;
  \<close>
\<close>

fun addSeverity :: "string \<Rightarrow> int \<Rightarrow> (string \<times> jsval) list \<Rightarrow> (string \<times> jsval) list" where
  "addSeverity k r [] = [(k, SumCount r 1)]"
| "addSeverity k r ((k', v) # kvs) =
     (if k = k'
      then (case v of SumCount s c \<Rightarrow> (k', SumCount (s + r) (c + 1)) # kvs
                    | _ \<Rightarrow> (k', v) # kvs)
      else (k', v) # addSeverity k r kvs)"

text \<open>\<^verbatim>\<open>histogram[rating]++\<close> on one of the five seeded buckets.\<close>

definition bumpBucket :: "int \<Rightarrow> (int \<times> nat) list \<Rightarrow> (int \<times> nat) list" where
  "bumpBucket r h = map (\<lambda>(k, v). if k = r then (k, v + 1) else (k, v)) h"

text \<open>
  \<^verbatim>\<open>parseInt\<close> of a string, without a radix: leading white space is skipped, a sign
  is read, a \<^verbatim>\<open>0x\<close> prefix selects base 16, and the longest run of digits is the
  value; no digit gives \<^verbatim>\<open>NaN\<close>, here \<open>None\<close>. Strings are ASCII.
\<close>

definition isWhiteSpace :: "char \<Rightarrow> bool" where
  "isWhiteSpace c = (of_char c \<in> {9, 10, 11, 12, 13, 32 :: nat})"

definition digitValue :: "char \<Rightarrow> nat" where
  "digitValue c =
     (let n = (of_char c :: nat) in
      if 48 \<le> n \<and> n \<le> 57 then n - 48
      else if 97 \<le> n \<and> n \<le> 122 then n - 87
      else if 65 \<le> n \<and> n \<le> 90 then n - 55
      else 36)"

definition parseDigits :: "nat \<Rightarrow> string \<Rightarrow> nat option" where
  "parseDigits radix s =
     (let ds = takeWhile (\<lambda>c. digitValue c < radix) s in
      if ds = [] then None
      else Some (foldl (\<lambda>a c. a * radix + digitValue c) 0 ds))"

definition parseUnsigned :: "string \<Rightarrow> nat option" where
  "parseUnsigned s =
     (case s of
        c # x # t \<Rightarrow>
          if c = CHR ''0'' \<and> (x = CHR ''x'' \<or> x = CHR ''X'') then parseDigits 16 t
          else parseDigits 10 s
      | _ \<Rightarrow> parseDigits 10 s)"

definition parseInt :: "string \<Rightarrow> int option" where
  "parseInt s =
     (case dropWhile isWhiteSpace s of
        [] \<Rightarrow> None
      | c # t \<Rightarrow>
          if c = CHR ''-'' then map_option (\<lambda>n. - int n) (parseUnsigned t)
          else if c = CHR ''+'' then map_option int (parseUnsigned t)
          else map_option int (parseUnsigned (c # t)))"

definition trim :: "string \<Rightarrow> string" where
  "trim s = rev (dropWhile isWhiteSpace (rev (dropWhile isWhiteSpace s)))"

text \<open>A string in a condition: \<^verbatim>\<open>undefined\<close> and the empty string are false.\<close>

definition truthy :: "string option \<Rightarrow> bool" where
  "truthy v = (case v of None \<Rightarrow> False | Some s \<Rightarrow> s \<noteq> [])"

text \<open>
  The loop state is \<^verbatim>\<open>processedData\<close> with the two local variables
  \<^verbatim>\<open>totalSeverity\<close> and \<^verbatim>\<open>severityCount\<close>.
  \<^verbatim>\<open>
  Object.entries(response.problemRatings).forEach(([category, rating]) => {
      if (rating > 0) {
          processedData.problemDistribution[category] =
              (processedData.problemDistribution[category] || 0) + 1;
          totalSeverity += parseInt(rating);
          severityCount++;
          ... severityByCategory[category] ...
      }
  });
  \<close>
\<close>

type_synonym aggregation = "processedData \<times> int \<times> nat"

definition rateCategory :: "string \<times> int \<Rightarrow> aggregation \<Rightarrow> aggregation" where
  "rateCategory entry st =
     (case (entry, st) of ((c, r), (pd, totalSeverity, severityCount)) \<Rightarrow>
        if r > 0
        then (pd\<lparr>problemDistribution := increment c (problemDistribution pd),
                 severityByCategory := addSeverity c r (severityByCategory pd)\<rparr>,
              totalSeverity + r, severityCount + 1)
        else (pd, totalSeverity, severityCount))"

definition processRatings :: "surveyResponse \<Rightarrow> aggregation \<Rightarrow> aggregation" where
  "processRatings response st =
     (case problemRatings response of
        None \<Rightarrow> st
      | Some entries \<Rightarrow> fold rateCategory entries st)"

text \<open>
  \<^verbatim>\<open>
  if (response.topProblems && response.topProblems.length > 0) {
      response.topProblems.forEach((problem, index) => {
          const problemCategory = problem.category;
          processedData.topProblems[problemCategory] =
              (processedData.topProblems[problemCategory] || 0) + 1;
          if (!processedData.problemDistribution[problemCategory]) {
              processedData.problemDistribution[problemCategory] = 0;
          }
          processedData.problemDistribution[problemCategory] += 1;
      });
  }
  \<close>
\<close>

definition countTopProblem :: "problem \<Rightarrow> processedData \<Rightarrow> processedData" where
  "countTopProblem p pd =
     pd\<lparr>topProblems' := increment (category p) (topProblems' pd),
        problemDistribution := increment (category p) (problemDistribution pd)\<rparr>"

definition processTopProblems :: "surveyResponse \<Rightarrow> processedData \<Rightarrow> processedData" where
  "processTopProblems response pd =
     (case topProblems response of
        None \<Rightarrow> pd
      | Some ps \<Rightarrow> fold countTopProblem ps pd)"

definition processSatisfaction :: "surveyResponse \<Rightarrow> processedData \<Rightarrow> processedData" where
  "processSatisfaction response pd =
     (if truthy (satisfactionRating response)
      then (case parseInt (the (satisfactionRating response)) of
              None \<Rightarrow> pd
            | Some r \<Rightarrow> if 1 \<le> r \<and> r \<le> 5
                        then pd\<lparr>satisfaction := bumpBucket r (satisfaction pd)\<rparr> else pd)
      else pd)"

definition processLikelihood :: "surveyResponse \<Rightarrow> processedData \<Rightarrow> processedData" where
  "processLikelihood response pd =
     (if truthy (likelihoodRating response)
      then (case parseInt (the (likelihoodRating response)) of
              None \<Rightarrow> pd
            | Some r \<Rightarrow> if 1 \<le> r \<and> r \<le> 5
                        then pd\<lparr>adoptionLikelihood := bumpBucket r (adoptionLikelihood pd)\<rparr>
                        else pd)
      else pd)"

definition processWillingness :: "surveyResponse \<Rightarrow> processedData \<Rightarrow> processedData" where
  "processWillingness response pd =
     (case willingnessToPay response of
        None \<Rightarrow> pd
      | Some w \<Rightarrow>
          if w \<noteq> [] \<and> trim w \<noteq> []
          then pd\<lparr>willingnessToPay' := increment (trim w) (willingnessToPay' pd)\<rparr>
          else pd)"

text \<open>
  \<^verbatim>\<open>
  if (response.interestedInTrying) {
      if (response.interestedInTrying === 'yes') {
          processedData.earlyAdopter.yes++;
      } else {
          processedData.earlyAdopter.no++;
      }
  }
  \<close>
\<close>

definition processEarlyAdopter :: "surveyResponse \<Rightarrow> processedData \<Rightarrow> processedData" where
  "processEarlyAdopter response pd =
     (if truthy (interestedInTrying response)
      then (if interestedInTrying response = Some ''yes''
            then pd\<lparr>earlyAdopter := (earlyAdopter pd)\<lparr>yes := yes (earlyAdopter pd) + 1\<rparr>\<rparr>
            else pd\<lparr>earlyAdopter := (earlyAdopter pd)\<lparr>no := no (earlyAdopter pd) + 1\<rparr>\<rparr>)
      else pd)"

definition processResponse :: "surveyResponse \<Rightarrow> aggregation \<Rightarrow> aggregation" where
  "processResponse response st =
     (case processRatings response st of (pd, totalSeverity, severityCount) \<Rightarrow>
        (processEarlyAdopter response
           (processWillingness response
              (processLikelihood response
                 (processSatisfaction response
                    (processTopProblems response pd)))),
         totalSeverity, severityCount))"

text \<open>
  \<^verbatim>\<open>
  Object.entries(table).forEach(([problem, count]) => {
      if (count > maxCount) { maxCount = count; topProblem = problem; }
  });
  \<close>
\<close>

definition keepMax :: "string \<times> nat \<Rightarrow> nat \<times> string \<Rightarrow> nat \<times> string" where
  "keepMax entry best =
     (case (entry, best) of ((p, n), (maxCount, t)) \<Rightarrow>
        if n > maxCount then (n, p) else (maxCount, t))"

definition findTopProblem :: "processedData \<Rightarrow> string" where
  "findTopProblem pd =
     (let best = fold keepMax (topProblems' pd) (0, []);
          best' = (if snd best = [] then fold keepMax (problemDistribution pd) best else best)
      in if snd best' = [] then ''No data'' else snd best')"

definition averageSeverity :: "string \<times> jsval \<Rightarrow> string \<times> jsval" where
  "averageSeverity entry =
     (case entry of
        (k, SumCount s c) \<Rightarrow> (k, if c > 0 then Fixed1 s c else Str ''0.0'')
      | (k, v) \<Rightarrow> (k, v))"

definition initialData :: "nat \<Rightarrow> processedData" where
  "initialData n =
     \<lparr>totalResponses = n, completionRate = 100,
      problemDistribution = [], topProblems' = [], severityByCategory = [],
      satisfaction = [(1, 0), (2, 0), (3, 0), (4, 0), (5, 0)],
      adoptionLikelihood = [(1, 0), (2, 0), (3, 0), (4, 0), (5, 0)],
      willingnessToPay' = [], earlyAdopter = \<lparr>yes = 0, no = 0\<rparr>,
      avgProblemSeverity = Num 0, topProblem = [], solutionInterest = Num 0\<rparr>"

definition finish :: "aggregation \<Rightarrow> processedData" where
  "finish st =
     (case st of (pd, totalSeverity, severityCount) \<Rightarrow>
        let totalInterest = yes (earlyAdopter pd) + no (earlyAdopter pd) in
        pd\<lparr>avgProblemSeverity :=
              (if severityCount > 0 then Fixed1 totalSeverity severityCount else Str ''0.0''),
           topProblem := findTopProblem pd,
           solutionInterest :=
              (if totalInterest > 0 then Percent (yes (earlyAdopter pd)) totalInterest
               else Str ''0%''),
           severityByCategory := map averageSeverity (severityByCategory pd)\<rparr>)"

text \<open>
  \<^verbatim>\<open>if (responses.length === 0) return null;\<close> is the first statement: the result
  is \<open>None\<close> for the empty list.
\<close>

definition processSurveyData :: "surveyResponse list \<Rightarrow> processedData option" where
  "processSurveyData responses =
     (if responses = [] then None
      else Some (finish (fold processResponse responses (initialData (length responses), 0, 0))))"

subsection \<open>Notions used in the statements about the aggregation\<close>


text \<open>
  A response that carries nothing the aggregation counts: no rating above zero, no
  top problem, and none of the four answers.
\<close>

definition unanswered :: "surveyResponse \<Rightarrow> bool" where
  "unanswered r =
     ((case problemRatings r of None \<Rightarrow> True | Some es \<Rightarrow> list_all (\<lambda>e. snd e \<le> 0) es)
      \<and> (case topProblems r of None \<Rightarrow> True | Some ps \<Rightarrow> ps = [])
      \<and> \<not> truthy (satisfactionRating r)
      \<and> \<not> truthy (likelihoodRating r)
      \<and> \<not> truthy (willingnessToPay r)
      \<and> \<not> truthy (interestedInTrying r))"

text \<open>A response that answers only the question of interest, for the concrete checks.\<close>

definition interested :: "string option \<Rightarrow> surveyResponse" where
  "interested answer =
     \<lparr>problemRatings = None, topProblems = None, satisfactionRating = None,
      likelihoodRating = None, willingnessToPay = None, interestedInTrying = answer\<rparr>"

text \<open>
  The count a counter table holds for a key, and the two contributions of a response
  to the count of a category: its entries of \<^verbatim>\<open>problemRatings\<close> for the category
  with a rating above zero (at most one, the keys of an object being distinct), and
  its entries of \<^verbatim>\<open>topProblems\<close> with the category.
\<close>

definition countOf :: "string \<Rightarrow> (string \<times> nat) list \<Rightarrow> nat" where
  "countOf k table = (case map_of table k of None \<Rightarrow> 0 | Some n \<Rightarrow> n)"

definition ratedAboveZero :: "string \<Rightarrow> surveyResponse \<Rightarrow> nat" where
  "ratedAboveZero k r =
     (case problemRatings r of
        None \<Rightarrow> 0
      | Some es \<Rightarrow> length (filter (\<lambda>e. fst e = k \<and> snd e > 0) es))"

definition listedAsTop :: "string \<Rightarrow> surveyResponse \<Rightarrow> nat" where
  "listedAsTop k r =
     (case topProblems r of
        None \<Rightarrow> 0
      | Some ps \<Rightarrow> length (filter (\<lambda>p. category p = k) ps))"

section \<open>Server: the stored responses\<close>

text \<open>
  The Mongoose schema \<^verbatim>\<open>responseSchema\<close> of the model \<^verbatim>\<open>SurveyResponse\<close>. A path that
  a document does not have is \<open>None\<close>. Dates are milliseconds, object ids of the
  referenced collections are strings; \<^verbatim>\<open>location\<close>, \<^verbatim>\<open>responses\<close> and \<^verbatim>\<open>metadata\<close>
  are carried as text, no modelled operation looks into them. The values are taken
  as already of the schema's types (Mongoose casts, and fails on a value it cannot
  cast).
\<close>

record deviceInfo =
  deviceId :: "string option"
  platform :: "string option"
  userAgent :: "string option"
  appVersion :: "string option"

record analytics =
  completionTime :: "int option"
  startTime :: "int option"
  endTime :: "int option"
  sectionsCompleted :: "string list"

record syncEvent =
  timestamp :: int
  status :: string
  message :: string

text \<open>
  \<open>responseData\<close> is an object with the paths of the schema: an item of the array a
  client posts, the argument of \<^verbatim>\<open>SurveyResponse.create\<close>, and the content of a stored
  document.
\<close>

record responseData =
  surveyTemplate :: "string option"
  collectedBy :: "string option"
  team :: "string option"
  deviceInfo :: "deviceInfo option"
  location :: "string option"
  responses :: "string option"
  analytics :: "analytics option"
  syncStatus :: "string option"
  syncHistory :: "syncEvent list option"
  metadata :: "string option"

text \<open>
  A stored document: the id the driver generates (here a counter), the \<^verbatim>\<open>createdAt\<close>
  of \<^verbatim>\<open>timestamps: true\<close>, and the content. A store is the list of its documents in
  the order of insertion, with the counter for the next id.
\<close>

record document =
  docId :: nat
  createdAt :: int
  content :: responseData

record database =
  docs :: "document list"
  nextId :: nat

text \<open>\<^verbatim>\<open>responseData.deviceInfo?.deviceId\<close> and \<^verbatim>\<open>responseData.analytics?.startTime\<close>.\<close>

definition deviceIdOf :: "responseData \<Rightarrow> string option" where
  "deviceIdOf r = (case deviceInfo r of None \<Rightarrow> None | Some d \<Rightarrow> deviceId d)"

definition startTimeOf :: "responseData \<Rightarrow> int option" where
  "startTimeOf r = (case analytics r of None \<Rightarrow> None | Some a \<Rightarrow> startTime a)"

subsection \<open>The declared indexes\<close>

text \<open>
  \<^verbatim>\<open>
  responseSchema.index({ surveyTemplate: 1, createdAt: -1 });
  responseSchema.index({ collectedBy: 1, createdAt: -1 });
  responseSchema.index({ team: 1, syncStatus: 1 });
  responseSchema.index({ createdAt: -1 });
  responseSchema.index({ 'deviceInfo.deviceId': 1 });
  \<close>
  No call passes the option \<^verbatim>\<open>unique\<close>, and no path of the schema sets it.
\<close>

record indexSpec =
  indexKeys :: "(string \<times> int) list"
  indexUnique :: bool

definition responseSchema_indexes :: "indexSpec list" where
  "responseSchema_indexes =
     [\<lparr>indexKeys = [(''surveyTemplate'', 1), (''createdAt'', - 1)], indexUnique = False\<rparr>,
      \<lparr>indexKeys = [(''collectedBy'', 1), (''createdAt'', - 1)], indexUnique = False\<rparr>,
      \<lparr>indexKeys = [(''team'', 1), (''syncStatus'', 1)], indexUnique = False\<rparr>,
      \<lparr>indexKeys = [(''createdAt'', - 1)], indexUnique = False\<rparr>,
      \<lparr>indexKeys = [(''deviceInfo.deviceId'', 1)], indexUnique = False\<rparr>]"

datatype indexValue = Missing | Text string | Date int

definition pathValue :: "string \<Rightarrow> document \<Rightarrow> indexValue" where
  "pathValue p d =
     (let text = (\<lambda>v. case v of None \<Rightarrow> Missing | Some s \<Rightarrow> Text s);
          date = (\<lambda>v. case v of None \<Rightarrow> Missing | Some t \<Rightarrow> Date t)
      in if p = ''surveyTemplate'' then text (surveyTemplate (content d))
         else if p = ''collectedBy'' then text (collectedBy (content d))
         else if p = ''team'' then text (team (content d))
         else if p = ''syncStatus'' then text (syncStatus (content d))
         else if p = ''createdAt'' then Date (createdAt d)
         else if p = ''deviceInfo.deviceId'' then text (deviceIdOf (content d))
         else if p = ''analytics.startTime'' then date (startTimeOf (content d))
         else Missing)"

text \<open>
  What the store does with an index: an insertion is refused when the index is
  unique and a stored document has the same values on all its keys.
\<close>

definition violatesUnique :: "indexSpec list \<Rightarrow> document list \<Rightarrow> document \<Rightarrow> bool" where
  "violatesUnique indexes stored d =
     list_ex (\<lambda>ix. indexUnique ix
                \<and> list_ex (\<lambda>d'. list_all (\<lambda>k. pathValue (fst k) d' = pathValue (fst k) d)
                                          (indexKeys ix)) stored)
             indexes"

subsection \<open>Insertion\<close>

text \<open>
  \<^verbatim>\<open>SurveyResponse.create(data)\<close>: the schema requires \<^verbatim>\<open>surveyTemplate\<close>,
  \<^verbatim>\<open>collectedBy\<close> and \<^verbatim>\<open>team\<close>, restricts \<^verbatim>\<open>syncStatus\<close> to three values and defaults
  it to \<^verbatim>\<open>'synced'\<close>. A failed validation throws, with a message that lists the paths;
  so does an insertion that a unique index refuses.
\<close>

definition requiredMessage :: "string \<Rightarrow> string" where
  "requiredMessage p = p @ '': Path `'' @ p @ ''` is required.''"

definition validationErrors :: "responseData \<Rightarrow> string list" where
  "validationErrors data =
     (if surveyTemplate data = None then [requiredMessage ''surveyTemplate''] else [])
     @ (if collectedBy data = None then [requiredMessage ''collectedBy''] else [])
     @ (if team data = None then [requiredMessage ''team''] else [])
     @ (case syncStatus data of
          None \<Rightarrow> []
        | Some s \<Rightarrow>
            if s \<in> set [''pending'', ''synced'', ''failed''] then []
            else [''syncStatus: `'' @ s @ ''` is not a valid enum value for path `syncStatus`.''])"

fun joinWith :: "string \<Rightarrow> string list \<Rightarrow> string" where
  "joinWith sep [] = []"
| "joinWith sep [x] = x"
| "joinWith sep (x # y # ys) = x @ sep @ joinWith sep (y # ys)"

definition SurveyResponse_create ::
  "int \<Rightarrow> responseData \<Rightarrow> database \<Rightarrow> string + (document \<times> database)" where
  "SurveyResponse_create now data db =
     (if validationErrors data \<noteq> []
      then Inl (''SurveyResponse validation failed: '' @ joinWith '', '' (validationErrors data))
      else
        let d = \<lparr>docId = nextId db, createdAt = now,
                 content = (case syncStatus data of
                              None \<Rightarrow> data\<lparr>syncStatus := Some ''synced''\<rparr>
                            | Some s \<Rightarrow> data)\<rparr>
        in if violatesUnique responseSchema_indexes (docs db) d
           then Inl ''E11000 duplicate key error''
           else Inr (d, db\<lparr>docs := docs db @ [d], nextId := nextId db + 1\<rparr>))"

text \<open>
  \<^verbatim>\<open>
  SurveyResponse.findOne({
    'deviceInfo.deviceId': responseData.deviceInfo?.deviceId,
    'analytics.startTime': responseData.analytics?.startTime
  })
  \<close>
  An \<^verbatim>\<open>undefined\<close> in the filter is sent as \<^verbatim>\<open>null\<close>, which matches the documents
  without the path.
\<close>

definition findOne :: "string option \<Rightarrow> int option \<Rightarrow> database \<Rightarrow> document option" where
  "findOne dev start db =
     find (\<lambda>d. deviceIdOf (content d) = dev \<and> startTimeOf (content d) = start) (docs db)"

section \<open>Server: the reconciliation endpoint\<close>

text \<open>
  \<^verbatim>\<open>exports.syncResponses\<close> (surveyResponseController.js). \<^verbatim>\<open>req.user\<close> is set by the
  authentication middleware.
\<close>

record user =
  userId :: string
  userTeam :: string

record failure =
  deviceId' :: "string option"
  error :: string

record syncResults =
  successful :: "nat list"
  failed :: "failure list"

text \<open>
  The body of the loop, for one \<^verbatim>\<open>responseData\<close>; \<open>now\<close> is the value of
  \<^verbatim>\<open>new Date()\<close> while the item is processed, one reading for the history entry and
  for \<^verbatim>\<open>createdAt\<close>.
  \<^verbatim>\<open>
  try {
    const existingResponse = await SurveyResponse.findOne({...});
    if (existingResponse) {
      syncResults.failed.push({
        deviceId: responseData.deviceInfo?.deviceId,
        error: 'Response already synced'
      });
      continue;
    }
    const response = await SurveyResponse.create({
      ...responseData,
      collectedBy: req.user.id,
      team: req.user.team,
      syncStatus: 'synced',
      syncHistory: [{ timestamp: new Date(), status: 'synced',
                      message: 'Synced from offline device' }]
    });
    syncResults.successful.push(response._id);
  } catch (error) {
    syncResults.failed.push({
      deviceId: responseData.deviceInfo?.deviceId,
      error: error.message
    });
  }
  \<close>
\<close>

definition stamped :: "user \<Rightarrow> int \<Rightarrow> responseData \<Rightarrow> responseData" where
  "stamped u now responseData =
     responseData\<lparr>collectedBy := Some (userId u),
                  team := Some (userTeam u),
                  syncStatus := Some ''synced'',
                  syncHistory := Some [\<lparr>timestamp = now, status = ''synced'',
                                         message = ''Synced from offline device''\<rparr>]\<rparr>"

definition syncItem ::
  "user \<Rightarrow> int \<Rightarrow> responseData \<Rightarrow> database \<times> syncResults \<Rightarrow> database \<times> syncResults" where
  "syncItem u now responseData st =
     (case st of (db, syncResults) \<Rightarrow>
        (case findOne (deviceIdOf responseData) (startTimeOf responseData) db of
           Some existingResponse \<Rightarrow>
             (db, syncResults\<lparr>failed := failed syncResults
                    @ [\<lparr>deviceId' = deviceIdOf responseData,
                         error = ''Response already synced''\<rparr>]\<rparr>)
         | None \<Rightarrow>
             (case SurveyResponse_create now (stamped u now responseData) db of
                Inr (response, db') \<Rightarrow>
                  (db', syncResults\<lparr>successful := successful syncResults @ [docId response]\<rparr>)
              | Inl msg \<Rightarrow>
                  (db, syncResults\<lparr>failed := failed syncResults
                         @ [\<lparr>deviceId' = deviceIdOf responseData, error = msg\<rparr>]\<rparr>))))"

text \<open>
  \<^verbatim>\<open>for (const responseData of responses)\<close>: the items in order; \<open>clock i\<close> is the time
  at which the item at position \<open>i\<close> is processed.
\<close>

fun syncLoop ::
  "user \<Rightarrow> (nat \<Rightarrow> int) \<Rightarrow> nat \<Rightarrow> responseData list
     \<Rightarrow> database \<times> syncResults \<Rightarrow> database \<times> syncResults" where
  "syncLoop u clock i [] st = st"
| "syncLoop u clock i (responseData # rest) st =
     syncLoop u clock (Suc i) rest (syncItem u (clock i) responseData st)"

text \<open>Decimal text of a number, for the message of the reply.\<close>

fun showNat :: "nat \<Rightarrow> string" where
  "showNat n =
     (if n < 10 then [''0123456789'' ! n]
      else showNat (n div 10) @ [''0123456789'' ! (n mod 10)])"

declare showNat.simps [simp del]

datatype reply =
    BadRequest string
  | SyncCompleted string syncResults

text \<open>
  The handler; \<open>body\<close> is \<^verbatim>\<open>req.body.responses\<close>. A value that is not an array
  (\<open>None\<close>) is answered with status 400; otherwise the loop runs and the reply carries both lists.
\<close>

definition syncResponses ::
  "user \<Rightarrow> (nat \<Rightarrow> int) \<Rightarrow> responseData list option \<Rightarrow> database \<Rightarrow> reply \<times> database" where
  "syncResponses u clock body db =
     (case body of
        None \<Rightarrow> (BadRequest ''Responses must be an array'', db)
      | Some items \<Rightarrow>
          (case syncLoop u clock 0 items (db, \<lparr>successful = [], failed = []\<rparr>) of
             (db', syncResults) \<Rightarrow>
               (SyncCompleted
                  (''Sync completed: '' @ showNat (length (successful syncResults))
                     @ '' successful, '' @ showNat (length (failed syncResults)) @ '' failed'')
                  syncResults,
                db')))"

section \<open>Notions used in the statements about reconciliation\<close>

text \<open>The natural key of a response: device identifier and start time.\<close>

definition naturalKey :: "responseData \<Rightarrow> string option \<times> int option" where
  "naturalKey r = (deviceIdOf r, startTimeOf r)"

text \<open>An item is known to a store when the lookup of the endpoint finds a document for it.\<close>

definition known :: "database \<Rightarrow> responseData \<Rightarrow> bool" where
  "known db r = (findOne (deviceIdOf r) (startTimeOf r) db \<noteq> None)"

text \<open>The documents of a store that carry the key of an item.\<close>

definition stored :: "database \<Rightarrow> responseData \<Rightarrow> document list" where
  "stored db r = filter (\<lambda>d. naturalKey (content d) = naturalKey r) (docs db)"

definition keysDistinct :: "database \<Rightarrow> bool" where
  "keysDistinct db = distinct (map (\<lambda>d. naturalKey (content d)) (docs db))"

text \<open>The entry of the failed list for a duplicate.\<close>

definition alreadySynced :: "responseData \<Rightarrow> failure" where
  "alreadySynced r = \<lparr>deviceId' = deviceIdOf r, error = ''Response already synced''\<rparr>"

text \<open>An item passes the validation of the schema when it names its survey template.\<close>

definition wellFormed :: "responseData \<Rightarrow> bool" where
  "wellFormed r = (surveyTemplate r \<noteq> None)"

text \<open>The documents a run has appended to the store.\<close>

definition added :: "database \<Rightarrow> database \<Rightarrow> document list" where
  "added db db' = drop (length (docs db)) (docs db')"

text \<open>
  A document is the persisted form of an item: the item with the four fields set by
  the endpoint, the time being the one the document's history entry records.
\<close>

definition persistedFrom :: "user \<Rightarrow> responseData \<Rightarrow> document \<Rightarrow> bool" where
  "persistedFrom u r d =
     (case syncHistory (content d) of
        Some [e] \<Rightarrow> content d = stamped u (timestamp e) r
      | _ \<Rightarrow> False)"

text \<open>A document attributed to the session and marked as synchronised.\<close>

definition syncedBy :: "user \<Rightarrow> document \<Rightarrow> bool" where
  "syncedBy u d =
     (team (content d) = Some (userTeam u)
      \<and> collectedBy (content d) = Some (userId u)
      \<and> syncStatus (content d) = Some ''synced''
      \<and> (case syncHistory (content d) of
            Some [e] \<Rightarrow> status e = ''synced'' \<and> message e = ''Synced from offline device''
          | _ \<Rightarrow> False))"

text \<open>An item with the two ownership fields a client may send erased.\<close>

definition withoutOwnership :: "responseData \<Rightarrow> responseData" where
  "withoutOwnership r = r\<lparr>collectedBy := None, team := None\<rparr>"

text \<open>The message of a completed run.\<close>

definition completedMessage :: "nat \<Rightarrow> nat \<Rightarrow> string" where
  "completedMessage n m =
     ''Sync completed: '' @ showNat n @ '' successful, '' @ showNat m @ '' failed''"

subsection \<open>Data for the concrete checks\<close>

definition sampleUser :: user where
  "sampleUser = \<lparr>userId = ''user-1'', userTeam = ''team-1''\<rparr>"

definition sampleClock :: "nat \<Rightarrow> int" where
  "sampleClock i = 1700000000000 + int i"

definition sampleItem :: "string \<Rightarrow> int \<Rightarrow> responseData" where
  "sampleItem dev start =
     \<lparr>surveyTemplate = Some ''template-1'', collectedBy = None, team = None,
      deviceInfo = Some \<lparr>deviceId = Some dev, platform = None, userAgent = None,
                          appVersion = Some ''1.0.0''\<rparr>,
      location = None, responses = None,
      analytics = Some \<lparr>completionTime = Some 300, startTime = Some start, endTime = None,
                         sectionsCompleted = []\<rparr>,
      syncStatus = None, syncHistory = None, metadata = None\<rparr>"

definition emptyDb :: database where
  "emptyDb = \<lparr>docs = [], nextId = 0\<rparr>"

definition syncedItem :: "nat \<Rightarrow> nat \<Rightarrow> string \<Rightarrow> int \<Rightarrow> document" where
  "syncedItem n i dev start =
     \<lparr>docId = n, createdAt = sampleClock i,
      content = stamped sampleUser (sampleClock i) (sampleItem dev start)\<rparr>"

definition existingDb :: database where
  "existingDb = \<lparr>docs = [syncedItem 0 0 ''device-2'' 2000], nextId = 1\<rparr>"

definition submitted :: responseData where
  "submitted = (sampleItem ''device-1'' 1000)\<lparr>collectedBy := Some ''user-1'', team := Some ''team-1''\<rparr>"

definition bareItem :: "string \<Rightarrow> responseData" where
  "bareItem answers =
     \<lparr>surveyTemplate = Some ''template-1'', collectedBy = None, team = None,
      deviceInfo = None, location = None, responses = Some answers, analytics = None,
      syncStatus = None, syncHistory = None, metadata = None\<rparr>"

definition insertedDoc :: "nat \<Rightarrow> int \<Rightarrow> document" where
  "insertedDoc n t = \<lparr>docId = n, createdAt = t, content = submitted\<lparr>syncStatus := Some ''synced''\<rparr>\<rparr>"

definition duplicatedDb :: database where
  "duplicatedDb = \<lparr>docs = [insertedDoc 0 10, insertedDoc 1 20], nextId = 2\<rparr>"

section \<open>Client: local storage and the calls to the backend\<close>

text \<open>
  \<^verbatim>\<open>DataManager\<close> (script.js, the first definition of the file) keeps the surveys in
  \<^verbatim>\<open>localStorage\<close>. Three keys matter here: the list of all surveys, the
  queue of surveys waiting for synchronisation, and the device identifier. A key that
  is not set is \<open>None\<close>; the getters read it as the empty list. A locally stored survey
  is the submitted response \<open>'r\<close> with five more fields
  (\<^verbatim>\<open>{...response, id, timestamp, deviceId, syncStatus, date}\<close>); the fields carry the
  prefix \<open>survey_\<close> here, their names being taken by the server's records.
\<close>

record 'r completeSurvey =
  survey_fields :: 'r
  survey_id :: string
  survey_timestamp :: string
  survey_deviceId :: string
  survey_syncStatus :: string
  survey_date :: string

record 'r localStorage =
  survey_responses :: "'r completeSurvey list option"
  pending_sync_queue :: "'r completeSurvey list option"
  stored_deviceId :: "string option"

text \<open>
  What one call of \<^verbatim>\<open>submitSurvey\<close> reads from the browser: \<^verbatim>\<open>navigator.onLine\<close>
  when it decides whether to contact the backend and again, after the request, when
  the survey is saved; the two identifiers \<^verbatim>\<open>generateId()\<close> would produce; the two
  renderings of the current time.
\<close>

record browser =
  onLine_at_submit :: bool
  onLine_at_save :: bool
  generatedId :: string
  generatedDeviceId :: string
  isoTime :: string
  localeDate :: string

text \<open>
  The JSON body of a reply of the backend, and what \<^verbatim>\<open>fetch\<close> gives: a rejected
  promise (no connection, a timeout, a body that is not JSON), or a response with its
  \<^verbatim>\<open>ok\<close> flag and body.
\<close>

record 'd apiBody =
  body_success :: bool
  body_message :: "string option"
  body_data :: "'d option"

datatype 'd fetchResult =
    FetchFailed string
  | Responded bool "'d apiBody"

text \<open>
  \<^verbatim>\<open>
  try {
      const response = await fetch(url, config);
      const data = await response.json();
      if (!response.ok) { throw new Error(data.message || 'API request failed'); }
      return data;
  } catch (error) {
      console.error('API Request failed:', error);
      if (!navigator.onLine && options.method && options.method !== 'GET') {
          this.addToOfflineQueue(endpoint, options);
      }
      throw error;
  }
  \<close>
  \<^verbatim>\<open>addToOfflineQueue\<close> only writes to the console. A thrown error is \<open>Inl\<close> with its
  message.
\<close>

definition apiRequest :: "'d fetchResult \<Rightarrow> string + 'd apiBody" where
  "apiRequest outcome =
     (case outcome of
        FetchFailed e \<Rightarrow> Inl e
      | Responded ok body \<Rightarrow>
          if ok then Inr body
          else Inl (if truthy (body_message body) then the (body_message body)
                    else ''API request failed''))"

definition getAllSurveys :: "'r localStorage \<Rightarrow> 'r completeSurvey list" where
  "getAllSurveys st = (case survey_responses st of None \<Rightarrow> [] | Some xs \<Rightarrow> xs)"

definition getPendingSyncQueue :: "'r localStorage \<Rightarrow> 'r completeSurvey list" where
  "getPendingSyncQueue st = (case pending_sync_queue st of None \<Rightarrow> [] | Some xs \<Rightarrow> xs)"

definition addToSyncQueue :: "'r completeSurvey \<Rightarrow> 'r localStorage \<Rightarrow> 'r localStorage" where
  "addToSyncQueue survey st = st\<lparr>pending_sync_queue := Some (getPendingSyncQueue st @ [survey])\<rparr>"

definition clearSyncQueue :: "'r localStorage \<Rightarrow> 'r localStorage" where
  "clearSyncQueue st = st\<lparr>pending_sync_queue := None\<rparr>"

text \<open>
  \<^verbatim>\<open>
  getDeviceId() {
      let deviceId = localStorage.getItem('deviceId');
      if (!deviceId) {
          deviceId = this.generateId();
          localStorage.setItem('deviceId', deviceId);
      }
      return deviceId;
  }
  \<close>
\<close>

definition getDeviceId :: "browser \<Rightarrow> 'r localStorage \<Rightarrow> string \<times> 'r localStorage" where
  "getDeviceId b st =
     (if truthy (stored_deviceId st) then (the (stored_deviceId st), st)
      else (generatedDeviceId b, st\<lparr>stored_deviceId := Some (generatedDeviceId b)\<rparr>))"

text \<open>
  \<^verbatim>\<open>
  saveSurveyLocal(response) {
      let surveys = this.getAllSurveys();
      const surveyId = this.generateId();
      const timestamp = new Date().toISOString();
      const completeSurvey = {
          ...response,
          id: surveyId,
          timestamp: timestamp,
          deviceId: this.getDeviceId(),
          syncStatus: navigator.onLine ? 'synced' : 'pending',
          date: new Date().toLocaleDateString('en-US', {...})
      };
      surveys.push(completeSurvey);
      localStorage.setItem(this.STORAGE_KEYS.SURVEYS, JSON.stringify(surveys));
      if (!navigator.onLine) {
          this.addToSyncQueue(completeSurvey);
      }
      return { success: true, data: { response: completeSurvey } };
  }
  \<close>
\<close>

definition saveSurveyLocal ::
  "browser \<Rightarrow> 'r \<Rightarrow> 'r localStorage \<Rightarrow> 'r completeSurvey \<times> 'r localStorage" where
  "saveSurveyLocal b response st =
     (let surveys = getAllSurveys st;
          (device, st1) = getDeviceId b st;
          completeSurvey =
            \<lparr>survey_fields = response,
             survey_id = generatedId b,
             survey_timestamp = isoTime b,
             survey_deviceId = device,
             survey_syncStatus = (if onLine_at_save b then ''synced'' else ''pending''),
             survey_date = localeDate b\<rparr>;
          st2 = st1\<lparr>survey_responses := Some (surveys @ [completeSurvey])\<rparr>
      in (completeSurvey,
          if \<not> onLine_at_save b then addToSyncQueue completeSurvey st2 else st2))"

text \<open>
  \<^verbatim>\<open>
  async submitSurvey(response) {
      const surveyData = { ..., deviceInfo: { deviceId: this.getDeviceId(), ... }, ... };
      if (navigator.onLine) {
          try {
              const result = await this.apiRequest(..., { method: 'POST', ... });
              // Also save locally for redundancy
              this.saveSurveyLocal(response);
              return result;
          } catch (error) {
              console.error('Failed to submit to backend, saving locally:', error);
              // Fall back to local storage
              return this.saveSurveyLocal(response);
          }
      } else {
          // Offline - save locally and queue for sync
          return this.saveSurveyLocal(response);
      }
  }
  \<close>
  \<open>outcome\<close> is what the request gives if it is made. The function returns the body
  of the backend, or the survey as saved locally.
\<close>

datatype ('d, 'r) submitResult =
    FromBackend "'d apiBody"
  | SavedLocally "'r completeSurvey"

definition submitSurvey ::
  "browser \<Rightarrow> 'd fetchResult \<Rightarrow> 'r \<Rightarrow> 'r localStorage
     \<Rightarrow> ('d, 'r) submitResult \<times> 'r localStorage" where
  "submitSurvey b outcome response st =
     (let (device, st1) = getDeviceId b st
      in if onLine_at_submit b
         then (case apiRequest outcome of
                 Inr result \<Rightarrow>
                   (let (completeSurvey, st2) = saveSurveyLocal b response st1
                    in (FromBackend result, st2))
               | Inl err \<Rightarrow>
                   (let (completeSurvey, st2) = saveSurveyLocal b response st1
                    in (SavedLocally completeSurvey, st2)))
         else (let (completeSurvey, st2) = saveSurveyLocal b response st1
               in (SavedLocally completeSurvey, st2)))"

text \<open>
  \<^verbatim>\<open>
  async syncOfflineResponses() {
      const pendingResponses = this.getPendingSyncQueue();
      if (pendingResponses.length === 0 || !navigator.onLine) {
          return { success: true, message: 'No pending responses to sync' };
      }
      try {
          const result = await this.apiRequest(.../sync, { method: 'POST', ... });
          if (result.success) {
              this.clearSyncQueue();
              TeamApp.showNotification(
                  `Synced ${result.data.syncResults.successful.length} responses`, 'success');
          }
          return result;
      } catch (error) {
          console.error('Sync failed:', error);
          throw error;
      }
  }
  \<close>
  The result is \<open>Inl\<close> when the function throws. A successful body without \<^verbatim>\<open>data\<close>
  makes the notification line throw, after the queue was cleared.
\<close>

definition syncOfflineResponses ::
  "bool \<Rightarrow> syncResults fetchResult \<Rightarrow> 'r localStorage
     \<Rightarrow> (string + syncResults apiBody) \<times> 'r localStorage" where
  "syncOfflineResponses onLine outcome st =
     (let pendingResponses = getPendingSyncQueue st in
      if length pendingResponses = 0 \<or> \<not> onLine
      then (Inr \<lparr>body_success = True, body_message = Some ''No pending responses to sync'',
                 body_data = None\<rparr>, st)
      else (case apiRequest outcome of
              Inl err \<Rightarrow> (Inl err, st)
            | Inr result \<Rightarrow>
                if body_success result
                then (case body_data result of
                        Some syncResults \<Rightarrow> (Inr result, clearSyncQueue st)
                      | None \<Rightarrow>
                          (Inl ''Cannot read properties of undefined (reading 'syncResults')'',
                           clearSyncQueue st))
                else (Inr result, st)))"

subsection \<open>Data for the concrete checks of the client\<close>

definition onlineBrowser :: browser where
  "onlineBrowser =
     \<lparr>onLine_at_submit = True, onLine_at_save = True,
      generatedId = ''lq1x0k3fabc'', generatedDeviceId = ''lq1wzz9pdev'',
      isoTime = ''2024-01-01T10:00:00.000Z'', localeDate = ''Jan 1, 2024, 10:00 AM''\<rparr>"

definition emptyStorage :: "surveyResponse localStorage" where
  "emptyStorage = \<lparr>survey_responses = None, pending_sync_queue = None, stored_deviceId = None\<rparr>"

definition templateNotFound :: "unit fetchResult" where
  "templateNotFound =
     Responded False \<lparr>body_success = False,
                      body_message = Some ''Survey template not found or not active'',
                      body_data = None\<rparr>"

definition offlineBrowser :: browser where
  "offlineBrowser = onlineBrowser\<lparr>onLine_at_submit := False, onLine_at_save := False\<rparr>"

definition localSurvey :: "string \<Rightarrow> surveyResponse completeSurvey" where
  "localSurvey syncState =
     \<lparr>survey_fields = interested (Some ''yes''), survey_id = ''lq1x0k3fabc'',
      survey_timestamp = ''2024-01-01T10:00:00.000Z'', survey_deviceId = ''lq1wzz9pdev'',
      survey_syncStatus = syncState, survey_date = ''Jan 1, 2024, 10:00 AM''\<rparr>"

definition queuedStorage :: "surveyResponse localStorage" where
  "queuedStorage =
     \<lparr>survey_responses = Some [localSurvey ''pending''],
      pending_sync_queue = Some [localSurvey ''pending''],
      stored_deviceId = Some ''lq1wzz9pdev''\<rparr>"

section \<open>Properties of the ranking\<close>

lemma sorted_desc_sort_key:
  "sorted_wrt (\<lambda>a b. rating b \<le> rating a) (sort_key (\<lambda>p. - rating p) xs)"
proof -
  have "sorted (map (\<lambda>p. - rating p) (sort_key (\<lambda>p. - rating p) xs))"
    by (rule sorted_sort_key)
  then show ?thesis
    by (simp add: sorted_map)
qed

lemma sorted_wrt_take_desc:
  "sorted_wrt R xs \<Longrightarrow> sorted_wrt R (take n xs)"
  by (induction xs arbitrary: n) (auto simp: take_Cons split: nat.splits dest: in_set_takeD)

lemma ties_keep_order:
  "prefix (filter (\<lambda>p. rating p = r) (take n (sort_key (\<lambda>p. - rating p) xs)))
          (filter (\<lambda>p. rating p = r) xs)"
proof -
  have "prefix (filter (\<lambda>p. - rating p = - r) (take n (sort_key (\<lambda>p. - rating p) xs)))
               (filter (\<lambda>p. - rating p = - r) (sort_key (\<lambda>p. - rating p) xs))"
    by (rule filter_mono_prefix) (rule take_is_prefix)
  then have "prefix (filter (\<lambda>p. - rating p = - r) (take n (sort_key (\<lambda>p. - rating p) xs)))
               (filter (\<lambda>p. - rating p = - r) xs)"
    by (simp only: sort_key_stable)
  then show ?thesis by simp
qed

lemma getTopProblems_basic:
  "length (getTopProblems rs) \<le> 3
   \<and> (\<forall>p \<in> set (getTopProblems rs). p \<in> set (entries_of rs) \<and> rating p > 0)
   \<and> sorted_wrt (\<lambda>a b. rating b \<le> rating a) (getTopProblems rs)
   \<and> (\<forall>r. prefix (filter (\<lambda>p. rating p = r) (getTopProblems rs))
                   (filter (\<lambda>p. rating p = r) (entries_of rs)))
   \<and> getTopProblems [(''A'', 5), (''B'', 5), (''C'', 3), (''D'', 5)]
       = [\<lparr>category = ''A'', rating = 5\<rparr>, \<lparr>category = ''B'', rating = 5\<rparr>,
          \<lparr>category = ''D'', rating = 5\<rparr>]"
proof (intro conjI)
  show "length (getTopProblems rs) \<le> 3"
    by (simp add: getTopProblems_def)
next
  show "\<forall>p \<in> set (getTopProblems rs). p \<in> set (entries_of rs) \<and> rating p > 0"
  proof
    fix p assume "p \<in> set (getTopProblems rs)"
    then have "p \<in> set (sort_key (\<lambda>p. - rating p) (filter (\<lambda>p. rating p > 0) (entries_of rs)))"
      unfolding getTopProblems_def entries_of_def by (rule in_set_takeD)
    then show "p \<in> set (entries_of rs) \<and> rating p > 0"
      by simp
  qed
next
  show "sorted_wrt (\<lambda>a b. rating b \<le> rating a) (getTopProblems rs)"
    unfolding getTopProblems_def
    by (rule sorted_wrt_take_desc) (rule sorted_desc_sort_key)
next
  show "\<forall>r. prefix (filter (\<lambda>p. rating p = r) (getTopProblems rs))
                  (filter (\<lambda>p. rating p = r) (entries_of rs))"
  proof
    fix r
    have "prefix (filter (\<lambda>p. rating p = r) (getTopProblems rs))
            (filter (\<lambda>p. rating p = r) (filter (\<lambda>p. rating p > 0) (entries_of rs)))"
      unfolding getTopProblems_def entries_of_def by (rule ties_keep_order)
    also have "filter (\<lambda>p. rating p = r) (filter (\<lambda>p. rating p > 0) (entries_of rs))
             = (if r > 0 then filter (\<lambda>p. rating p = r) (entries_of rs) else [])"
      by (induction "entries_of rs" arbitrary: rs) (auto simp: filter_empty_conv intro: filter_cong)
    finally show "prefix (filter (\<lambda>p. rating p = r) (getTopProblems rs))
                    (filter (\<lambda>p. rating p = r) (entries_of rs))"
      by (simp split: if_splits)
  qed
next
  show "getTopProblems [(''A'', 5), (''B'', 5), (''C'', 3), (''D'', 5)]
       = [\<lparr>category = ''A'', rating = 5\<rparr>, \<lparr>category = ''B'', rating = 5\<rparr>,
          \<lparr>category = ''D'', rating = 5\<rparr>]"
    by (simp add: getTopProblems_def)
qed

lemma count_rating:
  "count (mset (map rating ys)) r = length (filter (\<lambda>p. rating p = r) ys)"
  by (induction ys) auto

lemma sorted_desc_determined:
  assumes "sorted_wrt (\<lambda>a b. rating b \<le> rating a) ys"
    and "sorted_wrt (\<lambda>a b. rating b \<le> rating a) zs"
    and "\<forall>r. filter (\<lambda>p. rating p = r) ys = filter (\<lambda>p. rating p = r) zs"
  shows "ys = zs"
  using assms
proof (induction ys arbitrary: zs)
  case Nil
  show ?case
  proof (cases zs)
    case Nil
    then show ?thesis by simp
  next
    case (Cons z zs')
    from Nil.prems(3) have "filter (\<lambda>p. rating p = rating z) [] = filter (\<lambda>p. rating p = rating z) zs"
      by (rule spec)
    with Cons show ?thesis by simp
  qed
next
  case (Cons y ys)
  have at: "filter (\<lambda>p. rating p = r) (y # ys) = filter (\<lambda>p. rating p = r) zs" for r
    using Cons.prems(3) by (rule spec)
  from at [of "rating y"] have "zs \<noteq> []" by auto
  then obtain z zs' where zs: "zs = z # zs'" by (cases zs) auto
  have "rating z \<le> rating y"
  proof -
    have "z \<in> set (filter (\<lambda>p. rating p = rating z) zs)" by (simp add: zs)
    then have "z \<in> set (filter (\<lambda>p. rating p = rating z) (y # ys))" by (simp only: at)
    then have "z \<in> set (y # ys)" by (simp only: set_filter) simp
    with Cons.prems(1) show ?thesis by auto
  qed
  moreover have "rating y \<le> rating z"
  proof -
    have "y \<in> set (filter (\<lambda>p. rating p = rating y) (y # ys))" by simp
    then have "y \<in> set (filter (\<lambda>p. rating p = rating y) zs)" by (simp only: at)
    then have "y \<in> set (z # zs')" by (simp only: set_filter zs) simp
    with Cons.prems(2) zs show ?thesis by auto
  qed
  ultimately have eq: "rating y = rating z" by simp
  from at [of "rating y"] eq zs have yz: "y = z"
    and tl: "filter (\<lambda>p. rating p = rating y) ys = filter (\<lambda>p. rating p = rating y) zs'"
    by simp_all
  have "\<forall>r. filter (\<lambda>p. rating p = r) ys = filter (\<lambda>p. rating p = r) zs'"
  proof
    fix r
    show "filter (\<lambda>p. rating p = r) ys = filter (\<lambda>p. rating p = r) zs'"
    proof (cases "r = rating y")
      case True
      with tl show ?thesis by simp
    next
      case False
      with at [of r] eq zs show ?thesis by simp
    qed
  qed
  moreover from Cons.prems(1) have "sorted_wrt (\<lambda>a b. rating b \<le> rating a) ys" by simp
  moreover from Cons.prems(2) zs have "sorted_wrt (\<lambda>a b. rating b \<le> rating a) zs'" by simp
  ultimately have "ys = zs'" by (rule Cons.IH [rotated 2])
  with yz zs show ?case by simp
qed

lemma top3_is_ranked: "rankedTop3 xs (take 3 (sort_key (\<lambda>p. - rating p) xs))"
proof -
  let ?S = "sort_key (\<lambda>p. - rating p) xs"
  let ?T = "take 3 ?S" and ?D = "drop 3 ?S"
  have sorted: "sorted_wrt (\<lambda>a b. rating b \<le> rating a) (?T @ ?D)"
    by (simp add: sorted_desc_sort_key)
  have 1: "length ?T = min 3 (length xs)" by simp
  have 2: "sorted_wrt (\<lambda>a b. rating b \<le> rating a) ?T"
    using sorted by (simp only: sorted_wrt_append)
  have 3: "prefix (filter (\<lambda>p. rating p = r) ?T) (filter (\<lambda>p. rating p = r) xs)" for r
    by (rule ties_keep_order)
  have 4: "\<forall>p \<in> set ?T. r \<le> rating p"
    if less: "length (filter (\<lambda>p. rating p = r) ?T) < length (filter (\<lambda>p. rating p = r) xs)" for r
  proof -
    have "filter (\<lambda>p. rating p = r) xs = filter (\<lambda>p. - rating p = - r) ?S"
      by (simp only: sort_key_stable) simp
    also have "\<dots> = filter (\<lambda>p. rating p = r) (?T @ ?D)" by simp
    finally have "length (filter (\<lambda>p. rating p = r) xs)
        = length (filter (\<lambda>p. rating p = r) ?T) + length (filter (\<lambda>p. rating p = r) ?D)"
      by (simp only: filter_append length_append)
    with less have "filter (\<lambda>p. rating p = r) ?D \<noteq> []" by auto
    then obtain q where q: "q \<in> set ?D" "rating q = r"
      by (auto simp: filter_empty_conv)
    from sorted have "\<forall>p \<in> set ?T. \<forall>q \<in> set ?D. rating q \<le> rating p"
      by (simp only: sorted_wrt_append) blast
    with q show ?thesis by blast
  qed
  from 1 2 3 4 show ?thesis
    unfolding rankedTop3_def by blast
qed

lemma ranked_counts_le:
  assumes ys: "rankedTop3 xs ys" and zs: "rankedTop3 xs zs"
  shows "length (filter (\<lambda>p. rating p = r) ys) \<le> length (filter (\<lambda>p. rating p = r) zs)"
proof (rule ccontr)
  assume "\<not> ?thesis"
  then have more: "length (filter (\<lambda>p. rating p = r) zs) < length (filter (\<lambda>p. rating p = r) ys)"
    by simp
  have len: "length ys = length zs"
    using ys zs by (simp add: rankedTop3_def)
  have pre: "length (filter (\<lambda>p. rating p = r') ys) \<le> length (filter (\<lambda>p. rating p = r') xs)" for r'
    using ys by (auto simp: rankedTop3_def dest: prefix_length_le)
  have pre': "length (filter (\<lambda>p. rating p = r') zs) \<le> length (filter (\<lambda>p. rating p = r') xs)" for r'
    using zs by (auto simp: rankedTop3_def dest: prefix_length_le)
  from more pre [of r] have "length (filter (\<lambda>p. rating p = r) zs) < length (filter (\<lambda>p. rating p = r) xs)"
    by simp
  with zs have zs_ge: "\<forall>p \<in> set zs. r \<le> rating p"
    by (simp add: rankedTop3_def)
  have "\<exists>r'. length (filter (\<lambda>p. rating p = r') ys) < length (filter (\<lambda>p. rating p = r') zs)"
  proof (rule ccontr)
    assume "\<not> ?thesis"
    then have "\<forall>r'. length (filter (\<lambda>p. rating p = r') zs)
                    \<le> length (filter (\<lambda>p. rating p = r') ys)"
      by (simp add: not_less)
    then have "\<forall>r'. count (mset (map rating zs)) r' \<le> count (mset (map rating ys)) r'"
      unfolding count_rating .
    then have sub: "mset (map rating zs) \<subseteq># mset (map rating ys)"
      by (intro mset_subset_eqI) blast
    have "count (mset (map rating zs)) r < count (mset (map rating ys)) r"
      unfolding count_rating using more .
    then have "mset (map rating zs) \<noteq> mset (map rating ys)" by force
    with sub have "mset (map rating zs) \<subset># mset (map rating ys)"
      by (simp only: subset_mset.less_le) simp
    then have "size (mset (map rating zs)) < size (mset (map rating ys))"
      by (rule mset_subset_size)
    with len show False by simp
  qed
  then obtain r' where less: "length (filter (\<lambda>p. rating p = r') ys) < length (filter (\<lambda>p. rating p = r') zs)"
    by blast
  with pre' [of r'] have "length (filter (\<lambda>p. rating p = r') ys) < length (filter (\<lambda>p. rating p = r') xs)"
    by simp
  with ys have ys_ge: "\<forall>p \<in> set ys. r' \<le> rating p"
    by (simp add: rankedTop3_def)
  from more have "filter (\<lambda>p. rating p = r) ys \<noteq> []" by auto
  then obtain p where "p \<in> set ys" "rating p = r" by (auto simp: filter_empty_conv)
  with ys_ge have 1: "r' \<le> r" by blast
  from less have "filter (\<lambda>p. rating p = r') zs \<noteq> []" by auto
  then obtain q where "q \<in> set zs" "rating q = r'" by (auto simp: filter_empty_conv)
  with zs_ge have 2: "r \<le> r'" by blast
  from 1 2 have "r = r'" by simp
  with more less show False by simp
qed

lemma ranked_unique:
  assumes ys: "rankedTop3 xs ys" and zs: "rankedTop3 xs zs"
  shows "ys = zs"
proof (rule sorted_desc_determined)
  show "sorted_wrt (\<lambda>a b. rating b \<le> rating a) ys" using ys by (simp add: rankedTop3_def)
  show "sorted_wrt (\<lambda>a b. rating b \<le> rating a) zs" using zs by (simp add: rankedTop3_def)
  show "\<forall>r. filter (\<lambda>p. rating p = r) ys = filter (\<lambda>p. rating p = r) zs"
  proof
    fix r
    let ?f = "\<lambda>l. filter (\<lambda>p. rating p = r) l"
    have len: "length (?f ys) = length (?f zs)"
      using ranked_counts_le [OF ys zs, of r] ranked_counts_le [OF zs ys, of r] by simp
    from ys have "prefix (?f ys) (?f xs)" by (simp add: rankedTop3_def)
    then have a: "?f ys = take (length (?f ys)) (?f xs)"
      by (auto simp: prefix_def)
    from zs have "prefix (?f zs) (?f xs)" by (simp add: rankedTop3_def)
    then have b: "?f zs = take (length (?f zs)) (?f xs)"
      by (auto simp: prefix_def)
    from a b len show "?f ys = ?f zs" by simp
  qed
qed

lemma getTopProblems_ranked: "rankedTop3 (ratedEntries rs) (getTopProblems rs)"
  unfolding getTopProblems_def ratedEntries_def entries_of_def by (rule top3_is_ranked)

lemma example_ranked:
  "rankedTop3 (ratedEntries [(''A'', 5), (''B'', 5), (''C'', 3), (''D'', 5)])
     [\<lparr>category = ''A'', rating = 5\<rparr>, \<lparr>category = ''B'', rating = 5\<rparr>,
      \<lparr>category = ''D'', rating = 5\<rparr>]"
  by (auto simp: rankedTop3_def ratedEntries_def entries_of_def)

text \<open>
  C7. The ranked list has at most three entries, each an entry of the ratings with a
  rating above zero, in descending order of rating; among entries of one rating the
  order of first insertion is kept and the earlier ones are the ones retained (the
  entries of that rating in the result are an initial segment of those in the input).
  It has three entries, or as many as are rated above zero if these are fewer, and
  they are the highest rated: when an entry of some rating is left out, no entry of
  a lower rating is in the list. These properties fix the list: it is the only list
  that is the three top-ranked of the rated entries. For A:5, B:5, C:3, D:5 the
  result is A, B, D, and C is left out.
\<close>

theorem getTopProblems_top3_stable:
  "length (getTopProblems rs) \<le> 3
   \<and> (\<forall>p \<in> set (getTopProblems rs). p \<in> set (entries_of rs) \<and> rating p > 0)
   \<and> sorted_wrt (\<lambda>a b. rating b \<le> rating a) (getTopProblems rs)
   \<and> (\<forall>r. prefix (filter (\<lambda>p. rating p = r) (getTopProblems rs))
                   (filter (\<lambda>p. rating p = r) (entries_of rs)))
   \<and> length (getTopProblems rs) = min 3 (length (ratedEntries rs))
   \<and> (\<forall>r. length (filter (\<lambda>p. rating p = r) (getTopProblems rs))
              < length (filter (\<lambda>p. rating p = r) (ratedEntries rs))
          \<longrightarrow> (\<forall>p \<in> set (getTopProblems rs). r \<le> rating p))
   \<and> (\<forall>ys. ys = getTopProblems rs \<longleftrightarrow> rankedTop3 (ratedEntries rs) ys)
   \<and> getTopProblems [(''A'', 5), (''B'', 5), (''C'', 3), (''D'', 5)]
       = [\<lparr>category = ''A'', rating = 5\<rparr>, \<lparr>category = ''B'', rating = 5\<rparr>,
          \<lparr>category = ''D'', rating = 5\<rparr>]"
proof -
  note old = getTopProblems_basic [of rs]
  have r: "rankedTop3 (ratedEntries rs) (getTopProblems rs)"
    by (rule getTopProblems_ranked)
  have 5: "length (getTopProblems rs) = min 3 (length (ratedEntries rs))"
    using r by (simp add: rankedTop3_def)
  have 6: "\<forall>r. length (filter (\<lambda>p. rating p = r) (getTopProblems rs))
              < length (filter (\<lambda>p. rating p = r) (ratedEntries rs))
          \<longrightarrow> (\<forall>p \<in> set (getTopProblems rs). r \<le> rating p)"
    using r unfolding rankedTop3_def by blast
  have 7: "\<forall>ys. ys = getTopProblems rs \<longleftrightarrow> rankedTop3 (ratedEntries rs) ys"
    using r ranked_unique [OF _ r] by blast
  from old 5 6 7 show ?thesis by blast
qed

theorem getTopProblems_top3_stable_witness:
  "rankedTop3 (ratedEntries [(''A'', 5), (''B'', 5), (''C'', 3), (''D'', 5)])
     [\<lparr>category = ''A'', rating = 5\<rparr>, \<lparr>category = ''B'', rating = 5\<rparr>,
      \<lparr>category = ''D'', rating = 5\<rparr>]
   \<and> [\<lparr>category = ''A'', rating = 5\<rparr>, \<lparr>category = ''B'', rating = 5\<rparr>,
        \<lparr>category = ''D'', rating = 5\<rparr>]
       = getTopProblems [(''A'', 5), (''B'', 5), (''C'', 3), (''D'', 5)]
   \<and> \<lparr>category = ''D'', rating = 5\<rparr> \<in> set (entries_of [(''A'', 5), (''B'', 5), (''C'', 3), (''D'', 5)])
   \<and> rating \<lparr>category = ''D'', rating = 5\<rparr> > 0"
proof -
  note main = getTopProblems_top3_stable [of "[(''A'', 5), (''B'', 5), (''C'', 3), (''D'', 5)]"]
  from main example_ranked
  have 1: "[\<lparr>category = ''A'', rating = 5\<rparr>, \<lparr>category = ''B'', rating = 5\<rparr>,
        \<lparr>category = ''D'', rating = 5\<rparr>]
       = getTopProblems [(''A'', 5), (''B'', 5), (''C'', 3), (''D'', 5)]"
    by blast
  then have "\<lparr>category = ''D'', rating = 5\<rparr>
          \<in> set (getTopProblems [(''A'', 5), (''B'', 5), (''C'', 3), (''D'', 5)])"
    by (simp flip: 1)
  with main have 2: "\<lparr>category = ''D'', rating = 5\<rparr>
       \<in> set (entries_of [(''A'', 5), (''B'', 5), (''C'', 3), (''D'', 5)])
     \<and> rating \<lparr>category = ''D'', rating = 5\<rparr> > 0"
    by blast
  from 1 2 example_ranked show ?thesis by blast
qed

section \<open>Properties of the aggregation\<close>

subsection \<open>The interest counters\<close>

















subsection \<open>The empty and the blank response set\<close>

lemma fold_rateCategory_nonpositive:
  "list_all (\<lambda>e. snd e \<le> 0) es \<Longrightarrow> fold rateCategory es st = st"
  by (induction es arbitrary: st) (auto simp: rateCategory_def split: prod.splits)

lemma processResponse_unanswered:
  assumes "unanswered r"
  shows "processResponse r st = st"
proof -
  have 1: "processRatings r s = s" for s
    using assms
    by (auto simp: unanswered_def processRatings_def fold_rateCategory_nonpositive
        split: option.splits)
  have 2: "processTopProblems r pd = pd" for pd
    using assms by (auto simp: unanswered_def processTopProblems_def split: option.splits)
  have 3: "processSatisfaction r pd = pd" for pd
    using assms by (simp add: unanswered_def processSatisfaction_def)
  have 4: "processLikelihood r pd = pd" for pd
    using assms by (simp add: unanswered_def processLikelihood_def)
  have 5: "processWillingness r pd = pd" for pd
    using assms by (auto simp: unanswered_def processWillingness_def truthy_def split: option.splits)
  have 6: "processEarlyAdopter r pd = pd" for pd
    using assms by (simp add: unanswered_def processEarlyAdopter_def)
  show ?thesis
    by (cases st) (simp add: processResponse_def 1 2 3 4 5 6)
qed

lemma fold_processResponse_unanswered:
  "list_all unanswered rs \<Longrightarrow> fold processResponse rs st = st"
  by (induction rs arbitrary: st) (simp_all add: processResponse_unanswered)

lemma finish_initialData:
  "finish (initialData n, 0, 0) =
     \<lparr>totalResponses = n, completionRate = 100,
      problemDistribution = [], topProblems' = [], severityByCategory = [],
      satisfaction = [(1, 0), (2, 0), (3, 0), (4, 0), (5, 0)],
      adoptionLikelihood = [(1, 0), (2, 0), (3, 0), (4, 0), (5, 0)],
      willingnessToPay' = [], earlyAdopter = \<lparr>yes = 0, no = 0\<rparr>,
      avgProblemSeverity = Str ''0.0'', topProblem = ''No data'',
      solutionInterest = Str ''0%''\<rparr>"
  by (simp add: finish_def initialData_def findTopProblem_def)

text \<open>
  C2 as stated: the function applied to the empty list yields the zero state. It
  yields no object at all.
\<close>

theorem processSurveyData_empty_counterexample:
  "processSurveyData [] = None"
  by (simp add: processSurveyData_def)

text \<open>
  C2, as the code has it. For the empty list the function returns \<^verbatim>\<open>null\<close>. The zero
  state (average \<^verbatim>\<open>'0.0'\<close>, top problem \<^verbatim>\<open>'No data'\<close>, rate \<^verbatim>\<open>'0%'\<close>, the five
  buckets of both histograms at zero) is the result for a non-empty list of responses
  that carry nothing to count, with \<^verbatim>\<open>totalResponses\<close> the length of the list.
\<close>

theorem processSurveyData_zero_state:
  "processSurveyData [] = None
   \<and> (rs \<noteq> [] \<and> list_all unanswered rs \<longrightarrow>
        processSurveyData rs =
          Some \<lparr>totalResponses = length rs, completionRate = 100,
                problemDistribution = [], topProblems' = [], severityByCategory = [],
                satisfaction = [(1, 0), (2, 0), (3, 0), (4, 0), (5, 0)],
                adoptionLikelihood = [(1, 0), (2, 0), (3, 0), (4, 0), (5, 0)],
                willingnessToPay' = [], earlyAdopter = \<lparr>yes = 0, no = 0\<rparr>,
                avgProblemSeverity = Str ''0.0'', topProblem = ''No data'',
                solutionInterest = Str ''0%''\<rparr>)"
  by (simp add: processSurveyData_def fold_processResponse_unanswered finish_initialData)

theorem processSurveyData_zero_state_witness:
  "processSurveyData
     [\<lparr>problemRatings = Some [(''Transport'', 0)], topProblems = Some [],
       satisfactionRating = None, likelihoodRating = Some [],
       willingnessToPay = None, interestedInTrying = None\<rparr>]
   = Some \<lparr>totalResponses = 1, completionRate = 100,
           problemDistribution = [], topProblems' = [], severityByCategory = [],
           satisfaction = [(1, 0), (2, 0), (3, 0), (4, 0), (5, 0)],
           adoptionLikelihood = [(1, 0), (2, 0), (3, 0), (4, 0), (5, 0)],
           willingnessToPay' = [], earlyAdopter = \<lparr>yes = 0, no = 0\<rparr>,
           avgProblemSeverity = Str ''0.0'', topProblem = ''No data'',
           solutionInterest = Str ''0%''\<rparr>"
  using processSurveyData_zero_state
    [of "[\<lparr>problemRatings = Some [(''Transport'', 0)], topProblems = Some [],
       satisfactionRating = None, likelihoodRating = Some [],
       willingnessToPay = None, interestedInTrying = None\<rparr>]"]
  by (simp add: unanswered_def truthy_def)

subsection \<open>The problem distribution\<close>

text \<open>
  What the code computes, for every response set: the count of a category is the
  number of positive ratings of the category plus the number of its listings among
  the top problems, summed over the responses.
\<close>

lemma countOf_increment:
  "countOf c (increment k table) = countOf c table + (if c = k then 1 else 0)"
  by (induction table) (auto simp: countOf_def)

lemma distribution_rateCategory:
  "countOf k (problemDistribution (fst (rateCategory e st)))
     = countOf k (problemDistribution (fst st)) + (if fst e = k \<and> snd e > 0 then 1 else 0)"
  by (cases e; cases st) (auto simp: rateCategory_def countOf_increment)

lemma distribution_fold_rateCategory:
  "countOf k (problemDistribution (fst (fold rateCategory es st)))
     = countOf k (problemDistribution (fst st))
       + length (filter (\<lambda>e. fst e = k \<and> snd e > 0) es)"
  by (induction es arbitrary: st) (simp_all add: distribution_rateCategory)

lemma distribution_processRatings:
  "countOf k (problemDistribution (fst (processRatings r st)))
     = countOf k (problemDistribution (fst st)) + ratedAboveZero k r"
  by (simp add: processRatings_def ratedAboveZero_def distribution_fold_rateCategory
      split: option.splits)

lemma distribution_fold_countTopProblem:
  "countOf k (problemDistribution (fold countTopProblem ps pd))
     = countOf k (problemDistribution pd) + length (filter (\<lambda>p. category p = k) ps)"
  by (induction ps arbitrary: pd) (auto simp: countTopProblem_def countOf_increment)

lemma distribution_processTopProblems:
  "countOf k (problemDistribution (processTopProblems r pd))
     = countOf k (problemDistribution pd) + listedAsTop k r"
  by (simp add: processTopProblems_def listedAsTop_def distribution_fold_countTopProblem
      split: option.splits)

lemma distribution_others:
  "problemDistribution (processSatisfaction r pd) = problemDistribution pd"
  "problemDistribution (processLikelihood r pd) = problemDistribution pd"
  "problemDistribution (processWillingness r pd) = problemDistribution pd"
  "problemDistribution (processEarlyAdopter r pd) = problemDistribution pd"
  by (simp_all add: processSatisfaction_def processLikelihood_def processWillingness_def
      processEarlyAdopter_def split: option.splits)

lemma distribution_processResponse:
  "countOf k (problemDistribution (fst (processResponse r st)))
     = countOf k (problemDistribution (fst st)) + ratedAboveZero k r + listedAsTop k r"
proof -
  obtain pd t c where p: "processRatings r st = (pd, t, c)"
    by (cases "processRatings r st") auto
  have "countOf k (problemDistribution pd)
          = countOf k (problemDistribution (fst st)) + ratedAboveZero k r"
    using distribution_processRatings [of k r st] p by simp
  then show ?thesis
    by (simp add: processResponse_def p distribution_others distribution_processTopProblems)
qed

lemma distribution_fold_processResponse:
  "countOf k (problemDistribution (fst (fold processResponse rs st)))
     = countOf k (problemDistribution (fst st))
       + (\<Sum>r\<leftarrow>rs. ratedAboveZero k r + listedAsTop k r)"
  by (induction rs arbitrary: st) (simp_all add: distribution_processResponse)

lemma problemDistribution_finish:
  "problemDistribution (finish st) = problemDistribution (fst st)"
  by (cases st) (simp add: finish_def Let_def)

lemma problemDistribution_counts:
  assumes "processSurveyData rs = Some out"
  shows "countOf k (problemDistribution out)
           = (\<Sum>r\<leftarrow>rs. ratedAboveZero k r + listedAsTop k r)"
proof -
  let ?st = "(initialData (length rs), 0::int, 0::nat)"
  from assms have out: "out = finish (fold processResponse rs ?st)"
    by (simp add: processSurveyData_def split: if_splits)
  have "countOf k (problemDistribution (fst ?st)) = 0"
    by (simp add: initialData_def countOf_def)
  then show ?thesis
    unfolding out problemDistribution_finish distribution_fold_processResponse by simp
qed

text \<open>
  C6. The claim: a response adds at most one to the count of a category in
  \<^verbatim>\<open>problemDistribution\<close>, whether or not the category is among its top problems.
  The code at a response that rates Transport 4 and so lists it as its top problem
  (the response of \<^verbatim>\<open>testSyncResponses\<close> in test-all-flows.js): the one response
  counts twice.
\<close>

theorem problemDistribution_double_count:
  "map_option problemDistribution (processSurveyData
     [\<lparr>problemRatings = Some [(''Transport'', 4)],
       topProblems = Some [\<lparr>category = ''Transport'', rating = 4\<rparr>],
       satisfactionRating = None, likelihoodRating = None,
       willingnessToPay = None, interestedInTrying = None\<rparr>])
   = Some [(''Transport'', 2)]"
  by (simp add: processSurveyData_def processResponse_def processRatings_def rateCategory_def
      processTopProblems_def countTopProblem_def processSatisfaction_def processLikelihood_def
      processWillingness_def processEarlyAdopter_def truthy_def finish_def Let_def initialData_def)

section \<open>Properties of the reconciliation endpoint\<close>

subsection \<open>One item\<close>

lemma no_unique_index: "violatesUnique responseSchema_indexes ds d = False"
  by (simp add: violatesUnique_def responseSchema_indexes_def)

lemma known_iff: "known db r \<longleftrightarrow> naturalKey r \<in> (\<lambda>d. naturalKey (content d)) ` set (docs db)"
  unfolding known_def findOne_def naturalKey_def find_None_iff image_iff
  by (metis prod.inject)

lemma stamped_keys [simp]:
  "deviceIdOf (stamped u t r) = deviceIdOf r" "startTimeOf (stamped u t r) = startTimeOf r"
  "naturalKey (stamped u t r) = naturalKey r"
  by (simp_all add: stamped_def deviceIdOf_def startTimeOf_def naturalKey_def)

lemma validationErrors_stamped:
  "validationErrors (stamped u t r) = (if wellFormed r then [] else [requiredMessage ''surveyTemplate''])"
  by (simp add: validationErrors_def stamped_def wellFormed_def)

lemma create_stamped:
  "SurveyResponse_create t (stamped u t r) db =
     (if wellFormed r
      then Inr (\<lparr>docId = nextId db, createdAt = t, content = stamped u t r\<rparr>,
                db\<lparr>docs := docs db @ [\<lparr>docId = nextId db, createdAt = t, content = stamped u t r\<rparr>],
                   nextId := Suc (nextId db)\<rparr>)
      else Inl (''SurveyResponse validation failed: '' @ requiredMessage ''surveyTemplate''))"
  by (simp add: SurveyResponse_create_def validationErrors_stamped no_unique_index Let_def)
     (simp add: stamped_def)

lemma syncItem_known:
  "known db r \<Longrightarrow>
   syncItem u t r (db, res) = (db, res\<lparr>failed := failed res @ [alreadySynced r]\<rparr>)"
  by (auto simp: syncItem_def known_def alreadySynced_def split: option.splits)

lemma syncItem_new:
  "\<not> known db r \<Longrightarrow> wellFormed r \<Longrightarrow>
   syncItem u t r (db, res) =
     (db\<lparr>docs := docs db @ [\<lparr>docId = nextId db, createdAt = t, content = stamped u t r\<rparr>],
         nextId := Suc (nextId db)\<rparr>,
      res\<lparr>successful := successful res @ [nextId db]\<rparr>)"
  by (simp add: syncItem_def known_def create_stamped)

lemma syncItem_rejected:
  "\<not> known db r \<Longrightarrow> \<not> wellFormed r \<Longrightarrow>
   syncItem u t r (db, res) =
     (db, res\<lparr>failed := failed res
             @ [\<lparr>deviceId' = deviceIdOf r,
                 error = ''SurveyResponse validation failed: ''
                           @ requiredMessage ''surveyTemplate''\<rparr>]\<rparr>)"
  by (simp add: syncItem_def known_def create_stamped)

lemma known_after_new:
  "known (db\<lparr>docs := docs db @ [\<lparr>docId = n, createdAt = t, content = stamped u t r\<rparr>],
             nextId := m\<rparr>) r' \<longleftrightarrow> known db r' \<or> naturalKey r' = naturalKey r"
  by (auto simp: known_iff)

lemma syncItem_cases:
  obtains (dup) "known db r" "syncItem u t r (db, res) = (db, res\<lparr>failed := failed res @ [alreadySynced r]\<rparr>)"
  | (new) "\<not> known db r" "wellFormed r"
      "syncItem u t r (db, res) =
     (db\<lparr>docs := docs db @ [\<lparr>docId = nextId db, createdAt = t, content = stamped u t r\<rparr>],
         nextId := Suc (nextId db)\<rparr>,
      res\<lparr>successful := successful res @ [nextId db]\<rparr>)"
  | (rejected) "\<not> known db r" "\<not> wellFormed r"
     "syncItem u t r (db, res) =
     (db, res\<lparr>failed := failed res
             @ [\<lparr>deviceId' = deviceIdOf r,
                 error = ''SurveyResponse validation failed: ''
                           @ requiredMessage ''surveyTemplate''\<rparr>]\<rparr>)"
  using syncItem_known syncItem_new syncItem_rejected by blast

subsection \<open>The loop\<close>

lemma syncLoop_all_known:
  "list_all (known db) xs \<Longrightarrow>
   syncLoop u c i xs (db, res) = (db, res\<lparr>failed := failed res @ map alreadySynced xs\<rparr>)"
proof (induction xs arbitrary: i res)
  case Nil
  then show ?case by simp
next
  case (Cons x xs)
  then show ?case by (simp add: syncItem_known)
qed

lemma known_syncItem_mono:
  "known db r' \<Longrightarrow> known (fst (syncItem u t r (db, res))) r'"
  by (cases rule: syncItem_cases [of db r u t res]) (simp_all add: known_after_new)

lemma known_syncItem_self:
  "wellFormed r \<Longrightarrow> known (fst (syncItem u t r (db, res))) r"
  by (cases rule: syncItem_cases [of db r u t res]) (simp_all add: known_after_new)

lemma known_syncLoop_mono:
  "known (fst st) r' \<Longrightarrow> known (fst (syncLoop u c i xs st)) r'"
proof (induction xs arbitrary: i st)
  case Nil
  then show ?case by simp
next
  case (Cons x xs)
  obtain db res where st: "st = (db, res)" by (cases st)
  from Cons.prems have "known (fst (syncItem u (c i) x st)) r'"
    by (simp add: st known_syncItem_mono)
  then show ?case by (simp add: Cons.IH)
qed

lemma syncLoop_makes_known:
  "list_all wellFormed xs \<Longrightarrow> list_all (known (fst (syncLoop u c i xs st))) xs"
proof (induction xs arbitrary: i st)
  case Nil
  then show ?case by simp
next
  case (Cons x xs)
  obtain db res where st: "st = (db, res)" by (cases st)
  have "known (fst (syncItem u (c i) x st)) x"
    using Cons.prems by (simp add: st known_syncItem_self)
  then have "known (fst (syncLoop u c (Suc i) xs (syncItem u (c i) x st))) x"
    by (rule known_syncLoop_mono)
  with Cons show ?case by simp
qed

lemma keysDistinct_syncItem:
  "keysDistinct db \<Longrightarrow> keysDistinct (fst (syncItem u t r (db, res)))"
  by (cases rule: syncItem_cases [of db r u t res])
     (auto simp: keysDistinct_def known_iff)

lemma keysDistinct_syncLoop:
  "keysDistinct (fst st) \<Longrightarrow> keysDistinct (fst (syncLoop u c i xs st))"
proof (induction xs arbitrary: i st)
  case Nil
  then show ?case by simp
next
  case (Cons x xs)
  obtain db res where st: "st = (db, res)" by (cases st)
  from Cons.prems have "keysDistinct (fst (syncItem u (c i) x st))"
    by (simp add: st keysDistinct_syncItem)
  then show ?case by (simp add: Cons.IH)
qed

lemma persistedFrom_stamped:
  "persistedFrom u r \<lparr>docId = n, createdAt = t', content = stamped u t r\<rparr>"
  by (simp add: persistedFrom_def stamped_def)

lemma syncLoop_partial:
  assumes "list_all wellFormed xs"
    and "distinct (map naturalKey (filter (\<lambda>r. \<not> known db r) xs))"
  shows "\<exists>new. syncLoop u c i xs (db, res) =
            (db\<lparr>docs := docs db @ new, nextId := nextId db + length new\<rparr>,
             res\<lparr>successful := successful res @ map docId new,
                 failed := failed res @ map alreadySynced (filter (known db) xs)\<rparr>)
          \<and> list_all2 (persistedFrom u) (filter (\<lambda>r. \<not> known db r) xs) new"
  using assms
proof (induction xs arbitrary: i db res)
  case Nil
  show ?case by (rule exI [of _ "[]"]) simp
next
  case (Cons x xs)
  show ?case
  proof (cases "known db x")
    case True
    from Cons.prems True have "list_all wellFormed xs"
      and "distinct (map naturalKey (filter (\<lambda>r. \<not> known db r) xs))"
      by simp_all
    from Cons.IH [OF this, of "Suc i" "res\<lparr>failed := failed res @ [alreadySynced x]\<rparr>"]
    obtain new where
      "syncLoop u c (Suc i) xs (db, res\<lparr>failed := failed res @ [alreadySynced x]\<rparr>) =
         (db\<lparr>docs := docs db @ new, nextId := nextId db + length new\<rparr>,
          res\<lparr>successful := successful res @ map docId new,
              failed := (failed res @ [alreadySynced x]) @ map alreadySynced (filter (known db) xs)\<rparr>)"
      and "list_all2 (persistedFrom u) (filter (\<lambda>r. \<not> known db r) xs) new"
      by auto
    with True show ?thesis
      by (intro exI [of _ new]) (simp add: syncItem_known)
  next
    case False
    let ?d = "\<lparr>docId = nextId db, createdAt = c i, content = stamped u (c i) x\<rparr>"
    let ?db1 = "db\<lparr>docs := docs db @ [?d], nextId := Suc (nextId db)\<rparr>"
    let ?res1 = "res\<lparr>successful := successful res @ [nextId db]\<rparr>"
    from Cons.prems have wf: "wellFormed x" "list_all wellFormed xs" by simp_all
    from Cons.prems False have fresh: "naturalKey x \<notin> naturalKey ` set (filter (\<lambda>r. \<not> known db r) xs)"
      and dist: "distinct (map naturalKey (filter (\<lambda>r. \<not> known db r) xs))"
      by simp_all
    have same: "known ?db1 r = known db r" if "r \<in> set xs" for r
    proof -
      have "naturalKey r \<noteq> naturalKey x" if "\<not> known db r"
      proof
        assume "naturalKey r = naturalKey x"
        moreover from \<open>r \<in> set xs\<close> that
        have "naturalKey r \<in> naturalKey ` set (filter (\<lambda>r. \<not> known db r) xs)"
          by simp
        ultimately show False using fresh by simp
      qed
      then show ?thesis by (auto simp: known_after_new)
    qed
    have f1: "filter (\<lambda>r. \<not> known ?db1 r) xs = filter (\<lambda>r. \<not> known db r) xs"
      by (rule filter_cong) (simp_all add: same)
    have f2: "filter (known ?db1) xs = filter (known db) xs"
      by (rule filter_cong) (simp_all add: same)
    from dist have "distinct (map naturalKey (filter (\<lambda>r. \<not> known ?db1 r) xs))"
      by (simp only: f1)
    from Cons.IH [OF wf(2) this, of "Suc i" ?res1]
    obtain new where run:
      "syncLoop u c (Suc i) xs (?db1, ?res1) =
         (?db1\<lparr>docs := docs ?db1 @ new, nextId := nextId ?db1 + length new\<rparr>,
          ?res1\<lparr>successful := successful ?res1 @ map docId new,
              failed := failed ?res1 @ map alreadySynced (filter (known ?db1) xs)\<rparr>)"
      and rel: "list_all2 (persistedFrom u) (filter (\<lambda>r. \<not> known ?db1 r) xs) new"
      by blast
    have step: "syncItem u (c i) x (db, res) = (?db1, ?res1)"
      using False wf(1) by (rule syncItem_new)
    show ?thesis
    proof (intro exI [of _ "?d # new"] conjI)
      show "syncLoop u c i (x # xs) (db, res) =
              (db\<lparr>docs := docs db @ ?d # new, nextId := nextId db + length (?d # new)\<rparr>,
               res\<lparr>successful := successful res @ map docId (?d # new),
                   failed := failed res @ map alreadySynced (filter (known db) (x # xs))\<rparr>)"
        using False by (simp add: step run f2)
      show "list_all2 (persistedFrom u) (filter (\<lambda>r. \<not> known db r) (x # xs)) (?d # new)"
        using False rel by (simp add: f1 persistedFrom_stamped)
    qed
  qed
qed

subsection \<open>Resubmission\<close>

lemma syncResponses_Some:
  "syncLoop u c 0 xs (db, \<lparr>successful = [], failed = []\<rparr>) = (db', res) \<Longrightarrow>
   syncResponses u c (Some xs) db
     = (SyncCompleted (completedMessage (length (successful res)) (length (failed res))) res, db')"
  by (simp add: syncResponses_def completedMessage_def)

lemma snd_syncResponses:
  "snd (syncResponses u c (Some xs) db)
     = fst (syncLoop u c 0 xs (db, \<lparr>successful = [], failed = []\<rparr>))"
  by (simp add: syncResponses_def split: prod.splits)

lemma filter_absent: "k \<notin> f ` set xs \<Longrightarrow> filter (\<lambda>x. f x = k) xs = []"
  by (induction xs) auto

lemma distinct_key_once:
  "distinct (map f xs) \<Longrightarrow> k \<in> f ` set xs \<Longrightarrow> length (filter (\<lambda>x. f x = k) xs) = 1"
proof (induction xs)
  case Nil
  then show ?case by simp
next
  case (Cons x xs)
  show ?case
  proof (cases "f x = k")
    case True
    with Cons.prems have "k \<notin> f ` set xs" by auto
    then have "filter (\<lambda>x. f x = k) xs = []" by (rule filter_absent)
    with True show ?thesis by simp
  next
    case False
    with Cons show ?thesis by auto
  qed
qed

lemma stored_one:
  assumes "keysDistinct db" "known db r"
  shows "length (stored db r) = 1"
  unfolding stored_def
  using assms by (intro distinct_key_once) (simp_all add: keysDistinct_def known_iff)

lemmas eval_sync = syncResponses_def syncItem_def findOne_def SurveyResponse_create_def
  validationErrors_def violatesUnique_def responseSchema_indexes_def stamped_def
  deviceIdOf_def startTimeOf_def sampleUser_def sampleClock_def sampleItem_def emptyDb_def
  requiredMessage_def Let_def

lemma persistedFrom_key:
  "persistedFrom u r d \<Longrightarrow> naturalKey (content d) = naturalKey r"
  by (auto simp: persistedFrom_def split: option.splits list.splits)

lemma list_all2_pick:
  "list_all2 P xs ys \<Longrightarrow> x \<in> set xs \<Longrightarrow> \<exists>y \<in> set ys. P x y"
  by (induction rule: list_all2_induct) auto

text \<open>
  C1 as stated, for every batch: the first call persists each new item, and after the
  two calls there is exactly one stored record for each item. Two items that name
  their template and carry neither device information nor timing have one key: the
  first call stores the first and reports the second as already synced, so the second
  is never stored. And a store that holds two documents of one key (two insertions of
  the same data, which the store accepts) keeps both when an item of that key is
  synchronised.
\<close>

theorem resubmission_repeated_key_counterexample:
  "syncResponses sampleUser sampleClock (Some [bareItem ''first'', bareItem ''second'']) emptyDb
     = (SyncCompleted ''Sync completed: 1 successful, 1 failed''
          \<lparr>successful = [0],
           failed = [\<lparr>deviceId' = None, error = ''Response already synced''\<rparr>]\<rparr>,
        \<lparr>docs = [\<lparr>docId = 0, createdAt = sampleClock 0,
                   content = stamped sampleUser (sampleClock 0) (bareItem ''first'')\<rparr>],
         nextId = 1\<rparr>)
   \<and> SurveyResponse_create 10 submitted emptyDb
     = Inr (insertedDoc 0 10, \<lparr>docs = [insertedDoc 0 10], nextId = 1\<rparr>)
   \<and> SurveyResponse_create 20 submitted \<lparr>docs = [insertedDoc 0 10], nextId = 1\<rparr>
     = Inr (insertedDoc 1 20, duplicatedDb)
   \<and> syncResponses sampleUser sampleClock (Some [sampleItem ''device-1'' 1000]) duplicatedDb
     = (SyncCompleted ''Sync completed: 0 successful, 1 failed''
          \<lparr>successful = [],
           failed = [\<lparr>deviceId' = Some ''device-1'', error = ''Response already synced''\<rparr>]\<rparr>,
        duplicatedDb)
   \<and> stored duplicatedDb (sampleItem ''device-1'' 1000) = [insertedDoc 0 10, insertedDoc 1 20]"
  by (simp add: eval_sync showNat.simps bareItem_def insertedDoc_def duplicatedDb_def
      submitted_def stored_def naturalKey_def)

text \<open>
  C1, for items that pass the validation. When a batch of such items is submitted twice
  in succession, the second call leaves the store as the first call left it, creates
  no document, has an empty successful list and reports every item in the failed list
  as already synced, with the item's device identifier. When the items unknown to the
  store have pairwise different keys, the first call persists each of them: it keeps
  the stored documents and appends one document per unknown item, in order, each the
  item as stamped by the endpoint. When the keys of the store were pairwise different
  before the first call, every item has exactly one stored document with its key
  after the calls; with both conditions, the document of an item that was unknown is
  the one persisted from that item.
\<close>

theorem resubmission_adds_nothing:
  assumes wf: "list_all wellFormed batch"
    and first: "syncResponses u c (Some batch) db = (reply1, db1)"
    and second: "syncResponses u c' (Some batch) db1 = (reply2, db2)"
  shows "db2 = db1
     \<and> reply2 = SyncCompleted (completedMessage 0 (length batch))
                  \<lparr>successful = [], failed = map alreadySynced batch\<rparr>
     \<and> (distinct (map naturalKey (filter (\<lambda>r. \<not> known db r) batch)) \<longrightarrow>
          reply1 = SyncCompleted
                     (completedMessage (length (filter (\<lambda>r. \<not> known db r) batch))
                                       (length (filter (known db) batch)))
                     \<lparr>successful = map docId (added db db1),
                      failed = map alreadySynced (filter (known db) batch)\<rparr>
          \<and> take (length (docs db)) (docs db1) = docs db
          \<and> list_all2 (persistedFrom u) (filter (\<lambda>r. \<not> known db r) batch) (added db db1))
     \<and> (keysDistinct db \<longrightarrow> (\<forall>r \<in> set batch. length (stored db2 r) = 1))
     \<and> (keysDistinct db \<and> distinct (map naturalKey (filter (\<lambda>r. \<not> known db r) batch)) \<longrightarrow>
          (\<forall>r \<in> set batch. \<not> known db r \<longrightarrow> list_all (persistedFrom u r) (stored db2 r)))"
proof -
  let ?res0 = "\<lparr>successful = [], failed = []\<rparr>"
  let ?new = "filter (\<lambda>r. \<not> known db r) batch"
  have db1: "db1 = fst (syncLoop u c 0 batch (db, ?res0))"
    using first snd_syncResponses [of u c batch db] by simp
  have k: "list_all (known db1) batch"
    unfolding db1 using wf by (rule syncLoop_makes_known)
  have "syncLoop u c' 0 batch (db1, ?res0)
          = (db1, \<lparr>successful = [], failed = map alreadySynced batch\<rparr>)"
    using syncLoop_all_known [OF k, of u c' 0 ?res0] by simp
  from syncResponses_Some [OF this] second
  have 1: "db2 = db1" and 2: "reply2 = SyncCompleted (completedMessage 0 (length batch))
                  \<lparr>successful = [], failed = map alreadySynced batch\<rparr>"
    by simp_all
  have one: "length (stored db1 r) = 1" if "keysDistinct db" "r \<in> set batch" for r
  proof -
    from k that(2) have "known db1 r" by (simp add: list_all_iff)
    moreover have "keysDistinct db1"
      unfolding db1 using that(1) keysDistinct_syncLoop [of "(db, ?res0)"] by simp
    ultimately show ?thesis by (simp add: stored_one)
  qed
  have part: "reply1 = SyncCompleted
                     (completedMessage (length ?new) (length (filter (known db) batch)))
                     \<lparr>successful = map docId (added db db1),
                      failed = map alreadySynced (filter (known db) batch)\<rparr>
          \<and> take (length (docs db)) (docs db1) = docs db
          \<and> list_all2 (persistedFrom u) ?new (added db db1)
          \<and> docs db1 = docs db @ added db db1"
    if dist: "distinct (map naturalKey ?new)"
  proof -
    from syncLoop_partial [OF wf dist, of u c 0 ?res0]
    obtain new where loop: "syncLoop u c 0 batch (db, ?res0) =
            (db\<lparr>docs := docs db @ new, nextId := nextId db + length new\<rparr>,
             \<lparr>successful = map docId new,
              failed = map alreadySynced (filter (known db) batch)\<rparr>)"
      and rel: "list_all2 (persistedFrom u) ?new new"
      by auto
    from syncResponses_Some [OF loop] first
    have reply: "reply1 = SyncCompleted
                   (completedMessage (length new) (length (filter (known db) batch)))
                   \<lparr>successful = map docId new,
                    failed = map alreadySynced (filter (known db) batch)\<rparr>"
      and d: "db1 = db\<lparr>docs := docs db @ new, nextId := nextId db + length new\<rparr>"
      by simp_all
    have new: "added db db1 = new" by (simp add: added_def d)
    have len: "length new = length ?new"
      using rel by (simp add: list_all2_lengthD)
    show ?thesis
      unfolding new using reply rel len by (simp add: d)
  qed
  have own: "list_all (persistedFrom u r) (stored db2 r)"
    if kd: "keysDistinct db" and dist: "distinct (map naturalKey ?new)"
      and r: "r \<in> set batch" "\<not> known db r" for r
  proof -
    from part [OF dist] have rel: "list_all2 (persistedFrom u) ?new (added db db1)"
      and docs: "docs db1 = docs db @ added db db1" by simp_all
    from r have "r \<in> set ?new" by simp
    with rel obtain d where d: "d \<in> set (added db db1)" "persistedFrom u r d"
      by (blast dest: list_all2_pick)
    from d(1) docs have "d \<in> set (docs db1)" by simp
    with d(2) have "d \<in> set (stored db1 r)"
      by (simp add: stored_def persistedFrom_key)
    moreover from one [OF kd r(1)] obtain e where "stored db1 r = [e]"
      by (cases "stored db1 r") auto
    ultimately have "stored db1 r = [d]" by simp
    with d(2) show ?thesis by (simp add: 1)
  qed
  from 1 2 part one own show ?thesis by (simp add: 1)
qed

lemma sample_first_run:
  "syncResponses sampleUser sampleClock
      (Some [sampleItem ''device-1'' 1000, sampleItem ''device-2'' 2000]) emptyDb
   = (SyncCompleted ''Sync completed: 2 successful, 0 failed'' \<lparr>successful = [0, 1], failed = []\<rparr>,
      \<lparr>docs = [syncedItem 0 0 ''device-1'' 1000, syncedItem 1 1 ''device-2'' 2000], nextId = 2\<rparr>)"
  by (simp add: eval_sync showNat.simps syncedItem_def)

lemma sample_second_run:
  "syncResponses sampleUser sampleClock
      (Some [sampleItem ''device-1'' 1000, sampleItem ''device-2'' 2000])
      \<lparr>docs = [syncedItem 0 0 ''device-1'' 1000, syncedItem 1 1 ''device-2'' 2000], nextId = 2\<rparr>
   = (SyncCompleted ''Sync completed: 0 successful, 2 failed''
        \<lparr>successful = [],
         failed = [\<lparr>deviceId' = Some ''device-1'', error = ''Response already synced''\<rparr>,
                   \<lparr>deviceId' = Some ''device-2'', error = ''Response already synced''\<rparr>]\<rparr>,
      \<lparr>docs = [syncedItem 0 0 ''device-1'' 1000, syncedItem 1 1 ''device-2'' 2000], nextId = 2\<rparr>)"
  by (simp add: eval_sync showNat.simps syncedItem_def)

theorem resubmission_adds_nothing_witness:
  "length (stored \<lparr>docs = [syncedItem 0 0 ''device-1'' 1000, syncedItem 1 1 ''device-2'' 2000],
                   nextId = 2\<rparr> (sampleItem ''device-2'' 2000)) = 1
   \<and> list_all (persistedFrom sampleUser (sampleItem ''device-2'' 2000))
        (stored \<lparr>docs = [syncedItem 0 0 ''device-1'' 1000, syncedItem 1 1 ''device-2'' 2000],
                 nextId = 2\<rparr> (sampleItem ''device-2'' 2000))
   \<and> list_all2 (persistedFrom sampleUser)
        [sampleItem ''device-1'' 1000, sampleItem ''device-2'' 2000]
        (added emptyDb
           \<lparr>docs = [syncedItem 0 0 ''device-1'' 1000, syncedItem 1 1 ''device-2'' 2000],
            nextId = 2\<rparr>)
   \<and> map alreadySynced [sampleItem ''device-1'' 1000, sampleItem ''device-2'' 2000]
       = [\<lparr>deviceId' = Some ''device-1'', error = ''Response already synced''\<rparr>,
          \<lparr>deviceId' = Some ''device-2'', error = ''Response already synced''\<rparr>]"
proof -
  let ?batch = "[sampleItem ''device-1'' 1000, sampleItem ''device-2'' 2000]"
  let ?db1 = "\<lparr>docs = [syncedItem 0 0 ''device-1'' 1000, syncedItem 1 1 ''device-2'' 2000],
               nextId = 2\<rparr>"
  have wf: "list_all wellFormed ?batch"
    by (simp add: wellFormed_def sampleItem_def)
  have kd: "keysDistinct emptyDb"
    by (simp add: keysDistinct_def emptyDb_def)
  have k: "\<not> known emptyDb r" for r
    by (simp add: known_def findOne_def emptyDb_def)
  have new: "filter (\<lambda>r. \<not> known emptyDb r) ?batch = ?batch"
    by (simp add: k)
  have dist: "distinct (map naturalKey (filter (\<lambda>r. \<not> known emptyDb r) ?batch))"
    unfolding new by (simp add: naturalKey_def deviceIdOf_def sampleItem_def)
  note main = resubmission_adds_nothing [OF wf sample_first_run sample_second_run]
  from main kd have 1: "length (stored ?db1 (sampleItem ''device-2'' 2000)) = 1"
    by simp
  from main kd dist k have 2: "list_all (persistedFrom sampleUser (sampleItem ''device-2'' 2000))
        (stored ?db1 (sampleItem ''device-2'' 2000))"
    by simp
  from main dist have 3: "list_all2 (persistedFrom sampleUser) ?batch (added emptyDb ?db1)"
    unfolding new by blast
  have 4: "map alreadySynced ?batch
       = [\<lparr>deviceId' = Some ''device-1'', error = ''Response already synced''\<rparr>,
          \<lparr>deviceId' = Some ''device-2'', error = ''Response already synced''\<rparr>]"
    by (simp add: alreadySynced_def deviceIdOf_def sampleItem_def)
  from 1 2 3 4 show ?thesis by blast
qed

subsection \<open>A batch that is partly known\<close>

text \<open>
  C3 as stated, for every batch: the items that match no stored response are
  persisted. Two batches of three items whose second item is already stored, each
  with one success and two failures: in the first the third item has no
  \<^verbatim>\<open>surveyTemplate\<close>, in the second it has the key of the first item.
\<close>

theorem partial_batch_counterexample:
  "fst (syncResponses sampleUser sampleClock
          (Some [sampleItem ''device-1'' 1000, sampleItem ''device-2'' 2000,
                 (sampleItem ''device-3'' 3000)\<lparr>surveyTemplate := None\<rparr>]) existingDb)
   = SyncCompleted ''Sync completed: 1 successful, 2 failed''
       \<lparr>successful = [1],
        failed = [\<lparr>deviceId' = Some ''device-2'', error = ''Response already synced''\<rparr>,
                  \<lparr>deviceId' = Some ''device-3'',
                    error = ''SurveyResponse validation failed: surveyTemplate: Path `surveyTemplate` is required.''\<rparr>]\<rparr>
   \<and> fst (syncResponses sampleUser sampleClock
          (Some [sampleItem ''device-1'' 1000, sampleItem ''device-2'' 2000,
                 sampleItem ''device-1'' 1000]) existingDb)
   = SyncCompleted ''Sync completed: 1 successful, 2 failed''
       \<lparr>successful = [1],
        failed = [\<lparr>deviceId' = Some ''device-2'', error = ''Response already synced''\<rparr>,
                  \<lparr>deviceId' = Some ''device-1'', error = ''Response already synced''\<rparr>]\<rparr>"
  by (simp add: eval_sync showNat.simps syncedItem_def existingDb_def)

text \<open>
  C3, for a batch of items that pass the validation and whose items unknown to the
  store have pairwise different keys. The run keeps the stored documents, appends
  one document for each unknown item, in order, each the item as stamped by the
  endpoint; the successful list holds the ids of these documents, and the failed list
  holds, for each known item in order, its device identifier with the duplicate
  message. No item stops the run.
\<close>

theorem partial_batch:
  assumes wf: "list_all wellFormed batch"
    and dist: "distinct (map naturalKey (filter (\<lambda>r. \<not> known db r) batch))"
    and run: "syncResponses u c (Some batch) db = (reply, db')"
  shows "reply = SyncCompleted
                   (completedMessage (length (filter (\<lambda>r. \<not> known db r) batch))
                                     (length (filter (known db) batch)))
                   \<lparr>successful = map docId (added db db'),
                    failed = map alreadySynced (filter (known db) batch)\<rparr>
     \<and> take (length (docs db)) (docs db') = docs db
     \<and> length (added db db') = length (filter (\<lambda>r. \<not> known db r) batch)
     \<and> list_all2 (persistedFrom u) (filter (\<lambda>r. \<not> known db r) batch) (added db db')"
proof -
  let ?res0 = "\<lparr>successful = [], failed = []\<rparr>"
  from syncLoop_partial [OF wf dist, of u c 0 ?res0]
  obtain new where loop: "syncLoop u c 0 batch (db, ?res0) =
            (db\<lparr>docs := docs db @ new, nextId := nextId db + length new\<rparr>,
             \<lparr>successful = map docId new,
              failed = map alreadySynced (filter (known db) batch)\<rparr>)"
    and rel: "list_all2 (persistedFrom u) (filter (\<lambda>r. \<not> known db r) batch) new"
    by auto
  from syncResponses_Some [OF loop] run
  have reply: "reply = SyncCompleted
                   (completedMessage (length new) (length (filter (known db) batch)))
                   \<lparr>successful = map docId new,
                    failed = map alreadySynced (filter (known db) batch)\<rparr>"
    and db': "db' = db\<lparr>docs := docs db @ new, nextId := nextId db + length new\<rparr>"
    by simp_all
  have new: "added db db' = new"
    by (simp add: added_def db')
  have len: "length new = length (filter (\<lambda>r. \<not> known db r) batch)"
    using rel by (simp add: list_all2_lengthD)
  show ?thesis
    unfolding new using reply rel len by (simp add: db')
qed

lemma sample_partial_run:
  "syncResponses sampleUser sampleClock
     (Some [sampleItem ''device-1'' 1000, sampleItem ''device-2'' 2000,
            sampleItem ''device-3'' 3000]) existingDb
   = (SyncCompleted ''Sync completed: 2 successful, 1 failed''
        \<lparr>successful = [1, 2],
         failed = [\<lparr>deviceId' = Some ''device-2'', error = ''Response already synced''\<rparr>]\<rparr>,
      \<lparr>docs = [syncedItem 0 0 ''device-2'' 2000, syncedItem 1 0 ''device-1'' 1000,
               syncedItem 2 2 ''device-3'' 3000], nextId = 3\<rparr>)"
  by (simp add: eval_sync showNat.simps syncedItem_def existingDb_def)

theorem partial_batch_witness:
  "length (added existingDb
             \<lparr>docs = [syncedItem 0 0 ''device-2'' 2000, syncedItem 1 0 ''device-1'' 1000,
                      syncedItem 2 2 ''device-3'' 3000], nextId = 3\<rparr>) = 2
   \<and> map alreadySynced (filter (known existingDb)
         [sampleItem ''device-1'' 1000, sampleItem ''device-2'' 2000,
          sampleItem ''device-3'' 3000])
       = [\<lparr>deviceId' = Some ''device-2'', error = ''Response already synced''\<rparr>]"
proof -
  let ?batch = "[sampleItem ''device-1'' 1000, sampleItem ''device-2'' 2000,
                 sampleItem ''device-3'' 3000]"
  have wf: "list_all wellFormed ?batch"
    by (simp add: wellFormed_def sampleItem_def)
  have k: "\<not> known existingDb (sampleItem ''device-1'' 1000)"
    "known existingDb (sampleItem ''device-2'' 2000)"
    "\<not> known existingDb (sampleItem ''device-3'' 3000)"
    by (simp_all add: known_def eval_sync existingDb_def syncedItem_def)
  have dist: "distinct (map naturalKey (filter (\<lambda>r. \<not> known existingDb r) ?batch))"
    by (simp add: k naturalKey_def deviceIdOf_def sampleItem_def)
  from partial_batch [OF wf dist sample_partial_run]
  have "length (added existingDb
             \<lparr>docs = [syncedItem 0 0 ''device-2'' 2000, syncedItem 1 0 ''device-1'' 1000,
                      syncedItem 2 2 ''device-3'' 3000], nextId = 3\<rparr>)
          = length (filter (\<lambda>r. \<not> known existingDb r) ?batch)"
    by blast
  then have 1: "length (added existingDb
             \<lparr>docs = [syncedItem 0 0 ''device-2'' 2000, syncedItem 1 0 ''device-1'' 1000,
                      syncedItem 2 2 ''device-3'' 3000], nextId = 3\<rparr>) = 2"
    by (simp add: k)
  have 2: "map alreadySynced (filter (known existingDb) ?batch)
       = [\<lparr>deviceId' = Some ''device-2'', error = ''Response already synced''\<rparr>]"
    by (simp add: k) (simp add: alreadySynced_def deviceIdOf_def sampleItem_def)
  from 1 2 show ?thesis by simp
qed

subsection \<open>Uniqueness of the natural key\<close>

text \<open>
  C4 as stated: the declared indexes make it impossible for two stored responses to
  share device identifier and start time. Inserting the same data twice succeeds
  twice, and the store then holds two documents with one key.
\<close>

theorem unique_key_counterexample:
  "SurveyResponse_create 10 submitted emptyDb
     = Inr (\<lparr>docId = 0, createdAt = 10, content = submitted\<lparr>syncStatus := Some ''synced''\<rparr>\<rparr>,
            \<lparr>docs = [\<lparr>docId = 0, createdAt = 10,
                       content = submitted\<lparr>syncStatus := Some ''synced''\<rparr>\<rparr>],
             nextId = 1\<rparr>)
   \<and> SurveyResponse_create 20 submitted
        \<lparr>docs = [\<lparr>docId = 0, createdAt = 10,
                   content = submitted\<lparr>syncStatus := Some ''synced''\<rparr>\<rparr>],
         nextId = 1\<rparr>
     = Inr (\<lparr>docId = 1, createdAt = 20, content = submitted\<lparr>syncStatus := Some ''synced''\<rparr>\<rparr>,
            \<lparr>docs = [\<lparr>docId = 0, createdAt = 10,
                       content = submitted\<lparr>syncStatus := Some ''synced''\<rparr>\<rparr>,
                     \<lparr>docId = 1, createdAt = 20,
                       content = submitted\<lparr>syncStatus := Some ''synced''\<rparr>\<rparr>],
             nextId = 2\<rparr>)
   \<and> \<not> keysDistinct
        \<lparr>docs = [\<lparr>docId = 0, createdAt = 10,
                   content = submitted\<lparr>syncStatus := Some ''synced''\<rparr>\<rparr>,
                 \<lparr>docId = 1, createdAt = 20,
                   content = submitted\<lparr>syncStatus := Some ''synced''\<rparr>\<rparr>],
         nextId = 2\<rparr>"
  by (simp add: SurveyResponse_create_def validationErrors_def violatesUnique_def
      responseSchema_indexes_def submitted_def sampleItem_def emptyDb_def keysDistinct_def Let_def)

text \<open>
  C4, as the code has it. No declared index is unique, so the store refuses no
  insertion for a duplicate key. What keeps keys apart is the lookup of the
  reconciliation endpoint: a run, executed on its own, leaves the keys of the store
  pairwise different if they were so before.
\<close>

theorem lookup_keeps_keys_distinct:
  "list_all (\<lambda>ix. \<not> indexUnique ix) responseSchema_indexes
   \<and> \<not> violatesUnique responseSchema_indexes ds d
   \<and> (keysDistinct db \<longrightarrow> keysDistinct (snd (syncResponses u c body db)))"
proof (intro conjI)
  show "list_all (\<lambda>ix. \<not> indexUnique ix) responseSchema_indexes"
    by (simp add: responseSchema_indexes_def)
next
  show "\<not> violatesUnique responseSchema_indexes ds d"
    by (simp add: no_unique_index)
next
  show "keysDistinct db \<longrightarrow> keysDistinct (snd (syncResponses u c body db))"
  proof (cases body)
    case None
    then show ?thesis by (simp add: syncResponses_def)
  next
    case (Some xs)
    show ?thesis
      unfolding Some snd_syncResponses
      using keysDistinct_syncLoop [of "(db, \<lparr>successful = [], failed = []\<rparr>)" u c 0 xs]
      by simp
  qed
qed

theorem lookup_keeps_keys_distinct_witness:
  "keysDistinct existingDb
   \<and> keysDistinct \<lparr>docs = [syncedItem 0 0 ''device-2'' 2000, syncedItem 1 0 ''device-1'' 1000,
                            syncedItem 2 2 ''device-3'' 3000], nextId = 3\<rparr>"
proof -
  have kd: "keysDistinct existingDb"
    by (simp add: keysDistinct_def existingDb_def)
  from lookup_keeps_keys_distinct
         [where db = existingDb and u = sampleUser and c = sampleClock
            and body = "Some [sampleItem ''device-1'' 1000, sampleItem ''device-2'' 2000,
                              sampleItem ''device-3'' 3000]"] kd
  show ?thesis
    by (simp add: sample_partial_run)
qed

subsection \<open>Ownership\<close>

lemma withoutOwnership_same [simp]:
  "deviceIdOf (withoutOwnership r) = deviceIdOf r"
  "startTimeOf (withoutOwnership r) = startTimeOf r"
  "stamped u t (withoutOwnership r) = stamped u t r"
  by (simp_all add: withoutOwnership_def deviceIdOf_def startTimeOf_def stamped_def)

lemma syncItem_withoutOwnership:
  "syncItem u t (withoutOwnership r) st = syncItem u t r st"
  by (cases st) (simp add: syncItem_def split: option.splits sum.splits)

lemma syncLoop_withoutOwnership:
  "syncLoop u c i (map withoutOwnership xs) st = syncLoop u c i xs st"
  by (induction xs arbitrary: i st) (simp_all add: syncItem_withoutOwnership)

lemma syncedBy_stamped:
  "syncedBy u \<lparr>docId = n, createdAt = t', content = stamped u t r\<rparr>"
  by (simp add: syncedBy_def stamped_def)

lemma syncItem_appends_synced:
  "\<exists>new. docs (fst (syncItem u t r (db, res))) = docs db @ new \<and> list_all (syncedBy u) new"
  by (cases rule: syncItem_cases [of db r u t res]) (simp_all add: syncedBy_stamped)

lemma syncLoop_appends_synced:
  "\<exists>new. docs (fst (syncLoop u c i xs st)) = docs (fst st) @ new \<and> list_all (syncedBy u) new"
proof (induction xs arbitrary: i st)
  case Nil
  show ?case by simp
next
  case (Cons x xs)
  obtain db res where st: "st = (db, res)" by (cases st)
  obtain new1 where 1: "docs (fst (syncItem u (c i) x st)) = docs (fst st) @ new1"
      "list_all (syncedBy u) new1"
    using syncItem_appends_synced [of u "c i" x db res] by (auto simp: st)
  obtain new2 where 2: "docs (fst (syncLoop u c (Suc i) xs (syncItem u (c i) x st)))
            = docs (fst (syncItem u (c i) x st)) @ new2" "list_all (syncedBy u) new2"
    using Cons.IH by blast
  show ?case
    by (rule exI [of _ "new1 @ new2"]) (simp add: 1 2)
qed

text \<open>
  C8. Two batches that differ only in the \<^verbatim>\<open>team\<close> and \<^verbatim>\<open>collectedBy\<close> fields of
  their items give the same reply and the same store. Every document a run appends
  has the team and the user id of the session, \<^verbatim>\<open>syncStatus\<close> \<^verbatim>\<open>'synced'\<close>, and a
  history of one entry with status \<^verbatim>\<open>'synced'\<close> and the message of the endpoint.
\<close>

theorem ownership_from_session:
  assumes "map withoutOwnership batch1 = map withoutOwnership batch2"
  shows "syncResponses u c (Some batch1) db = syncResponses u c (Some batch2) db
     \<and> list_all (syncedBy u) (added db (snd (syncResponses u c (Some batch1) db)))"
proof
  have "syncLoop u c 0 batch1 st = syncLoop u c 0 batch2 st" for st
    using syncLoop_withoutOwnership [of u c 0 batch1 st]
      syncLoop_withoutOwnership [of u c 0 batch2 st] assms by simp
  then show "syncResponses u c (Some batch1) db = syncResponses u c (Some batch2) db"
    by (simp add: syncResponses_def)
next
  obtain new where "docs (snd (syncResponses u c (Some batch1) db)) = docs db @ new"
      "list_all (syncedBy u) new"
    using syncLoop_appends_synced [of u c 0 batch1 "(db, \<lparr>successful = [], failed = []\<rparr>)"]
    by (auto simp: snd_syncResponses)
  then show "list_all (syncedBy u) (added db (snd (syncResponses u c (Some batch1) db)))"
    by (simp add: added_def)
qed

theorem ownership_from_session_witness:
  "syncResponses sampleUser sampleClock
     (Some [(sampleItem ''device-1'' 1000)\<lparr>collectedBy := Some ''mallory'', team := Some ''team-9''\<rparr>])
     emptyDb
   = (SyncCompleted ''Sync completed: 1 successful, 0 failed'' \<lparr>successful = [0], failed = []\<rparr>,
      \<lparr>docs = [syncedItem 0 0 ''device-1'' 1000], nextId = 1\<rparr>)
   \<and> team (content (syncedItem 0 0 ''device-1'' 1000)) = Some ''team-1''
   \<and> collectedBy (content (syncedItem 0 0 ''device-1'' 1000)) = Some ''user-1''"
proof -
  have same: "map withoutOwnership
           [(sampleItem ''device-1'' 1000)\<lparr>collectedBy := Some ''mallory'', team := Some ''team-9''\<rparr>]
        = map withoutOwnership [sampleItem ''device-1'' 1000]"
    by (simp add: withoutOwnership_def)
  have run: "syncResponses sampleUser sampleClock (Some [sampleItem ''device-1'' 1000]) emptyDb
     = (SyncCompleted ''Sync completed: 1 successful, 0 failed'' \<lparr>successful = [0], failed = []\<rparr>,
        \<lparr>docs = [syncedItem 0 0 ''device-1'' 1000], nextId = 1\<rparr>)"
    by (simp add: eval_sync showNat.simps syncedItem_def)
  from ownership_from_session [OF same, of sampleUser sampleClock emptyDb]
  have "syncResponses sampleUser sampleClock
     (Some [(sampleItem ''device-1'' 1000)\<lparr>collectedBy := Some ''mallory'', team := Some ''team-9''\<rparr>])
     emptyDb = syncResponses sampleUser sampleClock (Some [sampleItem ''device-1'' 1000]) emptyDb"
    by blast
  then show ?thesis
    by (simp add: run) (simp add: syncedItem_def stamped_def sampleUser_def)
qed

section \<open>Properties of the client\<close>

text \<open>
  The status of a stored survey follows \<^verbatim>\<open>navigator.onLine\<close> alone, whatever the
  request gave.
\<close>

lemma saveSurveyLocal_status:
  "survey_syncStatus (fst (saveSurveyLocal b r st))
     = (if onLine_at_save b then ''synced'' else ''pending'')
   \<and> getAllSurveys (snd (saveSurveyLocal b r st))
     = getAllSurveys st @ [fst (saveSurveyLocal b r st)]
   \<and> getPendingSyncQueue (snd (saveSurveyLocal b r st))
     = (if onLine_at_save b then getPendingSyncQueue st
        else getPendingSyncQueue st @ [fst (saveSurveyLocal b r st)])"
  by (simp add: saveSurveyLocal_def getDeviceId_def getAllSurveys_def getPendingSyncQueue_def
      addToSyncQueue_def Let_def split: prod.splits)

lemma submitSurvey_status:
  "\<exists>c. getAllSurveys (snd (submitSurvey b outcome r st)) = getAllSurveys st @ [c]
       \<and> survey_syncStatus c = (if onLine_at_save b then ''synced'' else ''pending'')
       \<and> getPendingSyncQueue (snd (submitSurvey b outcome r st))
           = (if onLine_at_save b then getPendingSyncQueue st else getPendingSyncQueue st @ [c])"
proof -
  obtain dev st1 where d: "getDeviceId b st = (dev, st1)"
    by (cases "getDeviceId b st")
  have same: "getAllSurveys st1 = getAllSurveys st" "getPendingSyncQueue st1 = getPendingSyncQueue st"
    using d by (auto simp: getDeviceId_def getAllSurveys_def getPendingSyncQueue_def split: if_splits)
  have snd: "snd (submitSurvey b outcome r st) = snd (saveSurveyLocal b r st1)"
    by (simp add: submitSurvey_def d split: prod.splits sum.splits)
  show ?thesis
    using saveSurveyLocal_status [of b r st1]
    by (intro exI [of _ "fst (saveSurveyLocal b r st1)"]) (simp add: snd same)
qed

text \<open>
  C5. The claim: a survey is stored as \<^verbatim>\<open>'synced'\<close> only after the server has
  acknowledged it, and as \<^verbatim>\<open>'pending'\<close> after a failed submission. The code, with the
  browser online and the backend answering the submission with status 404: the
  request throws, the survey is stored as \<^verbatim>\<open>'synced'\<close>, and it is not queued for a
  later synchronisation. The same call with the browser offline stores the survey as
  \<^verbatim>\<open>'pending'\<close> and queues it.
\<close>

theorem failed_submission_marked_synced:
  "apiRequest templateNotFound = Inl ''Survey template not found or not active''
   \<and> submitSurvey onlineBrowser templateNotFound (interested (Some ''yes'')) emptyStorage
     = (SavedLocally (localSurvey ''synced''),
        \<lparr>survey_responses = Some [localSurvey ''synced''],
         pending_sync_queue = None,
         stored_deviceId = Some ''lq1wzz9pdev''\<rparr>)
   \<and> submitSurvey offlineBrowser templateNotFound (interested (Some ''yes'')) emptyStorage
     = (SavedLocally (localSurvey ''pending''), queuedStorage)"
  by (simp add: apiRequest_def templateNotFound_def truthy_def submitSurvey_def
      saveSurveyLocal_def getDeviceId_def getAllSurveys_def getPendingSyncQueue_def
      addToSyncQueue_def onlineBrowser_def offlineBrowser_def emptyStorage_def
      queuedStorage_def localSurvey_def Let_def)

text \<open>
  C9. When the request of \<^verbatim>\<open>syncOfflineResponses\<close> gets no successful response (the
  request throws), local storage and with it the pending queue is exactly as before
  the call, and when the request was made (the queue not empty, the browser online)
  the function throws the same error to its caller.
\<close>

theorem sync_failure_keeps_queue:
  assumes "apiRequest outcome = Inl err"
  shows "snd (syncOfflineResponses onLine outcome st) = st
     \<and> (getPendingSyncQueue st \<noteq> [] \<and> onLine
          \<longrightarrow> fst (syncOfflineResponses onLine outcome st) = Inl err)"
  using assms by (simp add: syncOfflineResponses_def Let_def)

theorem sync_failure_keeps_queue_witness:
  "syncOfflineResponses True (FetchFailed ''Failed to fetch'') queuedStorage
     = (Inl ''Failed to fetch'', queuedStorage)
   \<and> getPendingSyncQueue queuedStorage = [localSurvey ''pending'']"
proof -
  have f: "apiRequest (FetchFailed ''Failed to fetch'' :: syncResults fetchResult)
             = Inl ''Failed to fetch''"
    by (simp add: apiRequest_def)
  have q: "getPendingSyncQueue queuedStorage = [localSurvey ''pending'']"
    by (simp add: getPendingSyncQueue_def queuedStorage_def)
  from sync_failure_keeps_queue [OF f, of True queuedStorage] q
  show ?thesis
    by (simp add: prod_eq_iff)
qed

end
